theory Spec2Isabelle
  imports Main "HOL-Library.Word" "HOL-Library.Monad_Syntax"
begin

unbundle bit_operations_syntax

section \<open>Shared layout\<close>

text \<open>
  The interpreter of \<^verbatim>\<open>evm_optimized\<close> (the translation unit with \<^verbatim>\<open>stack_top\<close>,
  \<^verbatim>\<open>stack_alloc\<close>, \<^verbatim>\<open>stack_free\<close> and the storage plane) works on one shared region: the
  control block \<^verbatim>\<open>MessageFrameMemory\<close> followed by the stack, memory, code and storage
  planes. The planes are disjoint regions reserved by the host, so each one is a value of
  its own here. Machine integers are words of the declared width; signed fields are read
  with \<open>sint\<close> and compared with \<open><s\<close>.

  A pointer into the stack plane is the signed byte offset from \<^verbatim>\<open>stack_base\<close>; the null
  pointer is \<open>None\<close>. C++ gives no meaning to an access outside a reserved plane, so
  every handler returns an \<open>option\<close>: \<open>None\<close> stands for a run that leaves its planes.
\<close>

type_synonym byte = "8 word"

type_synonym evm_word = "byte list"

record StorageEntry =
  address :: "byte list"
  key :: "byte list"
  val :: "byte list"
  original :: "byte list"
  is_warm :: byte

text \<open>The fields of the control block that the interpreter reads or writes.\<close>

record MessageFrameMemory =
  pc :: "32 word"
  gas_remaining :: "64 word"
  gas_refund :: "64 word"
  stack_size :: "32 word"
  memory_size :: "32 word"
  state :: "32 word"
  is_static :: "32 word"
  code_size :: "32 word"
  contract :: "byte list"
  halt_reason :: "32 word"
  storage_slot_count :: "32 word"
  max_storage_slots :: "32 word"

record OpResult =
  pc_increment :: int
  gas_cost :: int

text \<open>
  \<^verbatim>\<open>ExecutionContext\<close> holds the frame and the base pointers of the planes; here it
  holds the frame and the planes themselves. The stack plane is a sequence of 32-byte
  slots, slot \<open>i\<close> at byte offset \<open>32 * i\<close>.
\<close>

record ExecutionContext =
  frame :: MessageFrameMemory
  stack_base :: "evm_word list"
  memory_base :: "byte list"
  code :: "byte list"
  storage_base :: "StorageEntry list"

type_synonym OpHandler = "ExecutionContext \<Rightarrow> (OpResult \<times> ExecutionContext) option"

subsection \<open>Accesses to the planes\<close>

text \<open>
  A pointer \<open>p\<close> lies in the stack plane when it is the start of one of its slots. A
  slot holds exactly 32 bytes: reading or writing a word of another length is no access
  to a slot.
\<close>

definition in_stack_plane :: "ExecutionContext \<Rightarrow> int \<Rightarrow> bool" where
  "in_stack_plane ctx p \<longleftrightarrow>
     0 \<le> p \<and> p mod 32 = 0 \<and> nat (p div 32) < length (stack_base ctx)"

definition load_word :: "ExecutionContext \<Rightarrow> int \<Rightarrow> evm_word option" where
  "load_word ctx p =
     (if in_stack_plane ctx p \<and> length (stack_base ctx ! nat (p div 32)) = 32
      then Some (stack_base ctx ! nat (p div 32))
      else None)"

definition store_word :: "ExecutionContext \<Rightarrow> int \<Rightarrow> evm_word \<Rightarrow> ExecutionContext option" where
  "store_word ctx p w =
     (if in_stack_plane ctx p \<and> length w = 32
      then Some (ctx\<lparr>stack_base := (stack_base ctx)[nat (p div 32) := w]\<rparr>)
      else None)"

definition load_bytes :: "byte list \<Rightarrow> int \<Rightarrow> nat \<Rightarrow> byte list option" where
  "load_bytes plane off n =
     (if 0 \<le> off \<and> nat off + n \<le> length plane
      then Some (take n (drop (nat off) plane))
      else None)"

definition store_bytes :: "byte list \<Rightarrow> int \<Rightarrow> byte list \<Rightarrow> byte list option" where
  "store_bytes plane off bs =
     (if 0 \<le> off \<and> nat off + length bs \<le> length plane
      then Some (take (nat off) plane @ bs @ drop (nat off + length bs) plane)
      else None)"

definition load_byte :: "byte list \<Rightarrow> int \<Rightarrow> byte option" where
  "load_byte plane off =
     (if 0 \<le> off \<and> nat off < length plane then Some (plane ! nat off) else None)"

section \<open>Stack helpers\<close>

definition stack_top :: "ExecutionContext \<Rightarrow> int \<Rightarrow> int option" where
  "stack_top ctx offset =
     (if sint (stack_size (frame ctx)) \<le> offset then None
      else Some (sint ((stack_size (frame ctx) - 1 - word_of_int offset) * 32)))"

definition stack_alloc :: "ExecutionContext \<Rightarrow> int option \<times> ExecutionContext" where
  "stack_alloc ctx =
     (if 1024 \<le>s stack_size (frame ctx) then (None, ctx)
      else (Some (sint (stack_size (frame ctx) * 32)),
            ctx\<lparr>frame := (frame ctx)\<lparr>stack_size := stack_size (frame ctx) + 1\<rparr>\<rparr>))"

definition stack_free :: "ExecutionContext \<Rightarrow> int \<Rightarrow> bool \<times> ExecutionContext" where
  "stack_free ctx n =
     (if sint (stack_size (frame ctx)) < n then (False, ctx)
      else (True, ctx\<lparr>frame := (frame ctx)\<lparr>stack_size := stack_size (frame ctx) - word_of_int n\<rparr>\<rparr>))"

section \<open>256-bit helpers\<close>

definition word_to_u64 :: "evm_word \<Rightarrow> 64 word" where
  "word_to_u64 word =
     foldl (\<lambda>result i. push_bit 8 result OR ucast (word ! i)) 0 [24..<32]"

definition u64_to_word :: "64 word \<Rightarrow> evm_word" where
  "u64_to_word v0 =
     fst (foldl (\<lambda>(word, v) i. (word[i := ucast (v AND 0xFF)], drop_bit 8 v))
            (replicate 32 0, v0) (rev [24..<32]))"

definition is_zero :: "evm_word \<Rightarrow> bool" where
  "is_zero word = list_all (\<lambda>i. word ! i = 0) [0..<32]"

section \<open>Memory helpers\<close>

definition ensure_memory ::
  "ExecutionContext \<Rightarrow> 32 word \<Rightarrow> 32 word \<Rightarrow> (bool \<times> ExecutionContext) option" where
  "ensure_memory ctx offset sz =
     (if sz = 0 then Some (True, ctx)
      else
        let required = (ucast offset :: 64 word) + ucast sz in
        if (scast (memory_size (frame ctx)) :: 64 word) < required then
          let new_size = (ucast (((required + 31) div 32) * 32) :: 32 word) in
          if 1024 * 1024 < new_size then Some (False, ctx)
          else if memory_size (frame ctx) < new_size then
            do {
              m \<leftarrow> store_bytes (memory_base ctx) (sint (memory_size (frame ctx)))
                     (replicate (unat (new_size - memory_size (frame ctx))) 0);
              Some (True, ctx\<lparr>memory_base := m,
                              frame := (frame ctx)\<lparr>memory_size := new_size\<rparr>\<rparr>)
            }
          else Some (True, ctx)
        else Some (True, ctx))"

section \<open>Storage plane\<close>

function storage_find_from ::
  "StorageEntry list \<Rightarrow> nat \<Rightarrow> byte list \<Rightarrow> byte list \<Rightarrow> nat \<Rightarrow> nat option option" where
  "storage_find_from entries n addr k i =
     (if i < n then
        (if i < length entries then
           (if take 20 (address (entries ! i)) = take 20 addr \<and>
               take 32 (key (entries ! i)) = take 32 k
            then Some (Some i)
            else storage_find_from entries n addr k (i + 1))
         else None)
      else Some None)"
  by pat_completeness auto
termination
  by (relation "measure (\<lambda>(entries, n, addr, k, i). n - i)") auto

declare storage_find_from.simps [simp del]

definition storage_find ::
  "StorageEntry list \<Rightarrow> 32 word \<Rightarrow> byte list \<Rightarrow> byte list \<Rightarrow> nat option option" where
  "storage_find entries n addr k = storage_find_from entries (unat n) addr k 0"

definition storage_add ::
  "StorageEntry list \<Rightarrow> 32 word \<Rightarrow> 32 word \<Rightarrow> byte list \<Rightarrow> byte list \<Rightarrow>
     (nat option \<times> StorageEntry list \<times> 32 word) option" where
  "storage_add entries n max_slots addr k =
     (if max_slots \<le> n then Some (None, entries, n)
      else if unat n < length entries then
        Some (Some (unat n),
              entries[unat n := \<lparr>address = take 20 addr, key = take 32 k,
                                 val = replicate 32 0, original = replicate 32 0,
                                 is_warm = 0\<rparr>],
              n + 1)
      else None)"

section \<open>Operation handlers\<close>

definition op_stop :: OpHandler where
  "op_stop ctx = Some (\<lparr>pc_increment = 0, gas_cost = 0\<rparr>, ctx\<lparr>frame := (frame ctx)\<lparr>state := 7\<rparr>\<rparr>)"

definition op_add :: OpHandler where
  "op_add ctx =
     (case (stack_top ctx 0, stack_top ctx 1) of
        (Some a, Some b) \<Rightarrow>
          do {
            wa \<leftarrow> load_word ctx a;
            wb \<leftarrow> load_word ctx b;
            let val_a = word_to_u64 wa;
            let val_b = word_to_u64 wb;
            ctx1 \<leftarrow> store_word ctx b (u64_to_word (val_a + val_b));
            Some (\<lparr>pc_increment = 1, gas_cost = 3\<rparr>, snd (stack_free ctx1 1))
          }
      | _ \<Rightarrow> Some (\<lparr>pc_increment = - 1, gas_cost = 0\<rparr>, ctx))"

definition op_mul :: OpHandler where
  "op_mul ctx =
     (case (stack_top ctx 0, stack_top ctx 1) of
        (Some a, Some b) \<Rightarrow>
          do {
            wa \<leftarrow> load_word ctx a;
            wb \<leftarrow> load_word ctx b;
            let val_a = word_to_u64 wa;
            let val_b = word_to_u64 wb;
            ctx1 \<leftarrow> store_word ctx b (u64_to_word (val_a * val_b));
            Some (\<lparr>pc_increment = 1, gas_cost = 5\<rparr>, snd (stack_free ctx1 1))
          }
      | _ \<Rightarrow> Some (\<lparr>pc_increment = - 1, gas_cost = 0\<rparr>, ctx))"

definition op_sub :: OpHandler where
  "op_sub ctx =
     (case (stack_top ctx 0, stack_top ctx 1) of
        (Some a, Some b) \<Rightarrow>
          do {
            wa \<leftarrow> load_word ctx a;
            wb \<leftarrow> load_word ctx b;
            let val_a = word_to_u64 wa;
            let val_b = word_to_u64 wb;
            ctx1 \<leftarrow> store_word ctx b (u64_to_word (val_a - val_b));
            Some (\<lparr>pc_increment = 1, gas_cost = 3\<rparr>, snd (stack_free ctx1 1))
          }
      | _ \<Rightarrow> Some (\<lparr>pc_increment = - 1, gas_cost = 0\<rparr>, ctx))"

definition op_div :: OpHandler where
  "op_div ctx =
     (case (stack_top ctx 0, stack_top ctx 1) of
        (Some a, Some b) \<Rightarrow>
          do {
            wa \<leftarrow> load_word ctx a;
            wb \<leftarrow> load_word ctx b;
            let val_a = word_to_u64 wa;
            let val_b = word_to_u64 wb;
            ctx1 \<leftarrow> store_word ctx b (u64_to_word (if val_b = 0 then 0 else val_a div val_b));
            Some (\<lparr>pc_increment = 1, gas_cost = 5\<rparr>, snd (stack_free ctx1 1))
          }
      | _ \<Rightarrow> Some (\<lparr>pc_increment = - 1, gas_cost = 0\<rparr>, ctx))"

definition op_mod :: OpHandler where
  "op_mod ctx =
     (case (stack_top ctx 0, stack_top ctx 1) of
        (Some a, Some b) \<Rightarrow>
          do {
            wa \<leftarrow> load_word ctx a;
            wb \<leftarrow> load_word ctx b;
            let val_a = word_to_u64 wa;
            let val_b = word_to_u64 wb;
            ctx1 \<leftarrow> store_word ctx b (u64_to_word (if val_b = 0 then 0 else val_a mod val_b));
            Some (\<lparr>pc_increment = 1, gas_cost = 5\<rparr>, snd (stack_free ctx1 1))
          }
      | _ \<Rightarrow> Some (\<lparr>pc_increment = - 1, gas_cost = 0\<rparr>, ctx))"

definition op_lt :: OpHandler where
  "op_lt ctx =
     (case (stack_top ctx 0, stack_top ctx 1) of
        (Some a, Some b) \<Rightarrow>
          do {
            wa \<leftarrow> load_word ctx a;
            wb \<leftarrow> load_word ctx b;
            let val_a = word_to_u64 wa;
            let val_b = word_to_u64 wb;
            ctx1 \<leftarrow> store_word ctx b (u64_to_word (if val_a < val_b then 1 else 0));
            Some (\<lparr>pc_increment = 1, gas_cost = 3\<rparr>, snd (stack_free ctx1 1))
          }
      | _ \<Rightarrow> Some (\<lparr>pc_increment = - 1, gas_cost = 0\<rparr>, ctx))"

definition op_gt :: OpHandler where
  "op_gt ctx =
     (case (stack_top ctx 0, stack_top ctx 1) of
        (Some a, Some b) \<Rightarrow>
          do {
            wa \<leftarrow> load_word ctx a;
            wb \<leftarrow> load_word ctx b;
            let val_a = word_to_u64 wa;
            let val_b = word_to_u64 wb;
            ctx1 \<leftarrow> store_word ctx b (u64_to_word (if val_b < val_a then 1 else 0));
            Some (\<lparr>pc_increment = 1, gas_cost = 3\<rparr>, snd (stack_free ctx1 1))
          }
      | _ \<Rightarrow> Some (\<lparr>pc_increment = - 1, gas_cost = 0\<rparr>, ctx))"

definition op_eq :: OpHandler where
  "op_eq ctx =
     (case (stack_top ctx 0, stack_top ctx 1) of
        (Some a, Some b) \<Rightarrow>
          do {
            wa \<leftarrow> load_word ctx a;
            wb \<leftarrow> load_word ctx b;
            ctx1 \<leftarrow> store_word ctx b (u64_to_word (if take 32 wa = take 32 wb then 1 else 0));
            Some (\<lparr>pc_increment = 1, gas_cost = 3\<rparr>, snd (stack_free ctx1 1))
          }
      | _ \<Rightarrow> Some (\<lparr>pc_increment = - 1, gas_cost = 0\<rparr>, ctx))"

definition op_iszero :: OpHandler where
  "op_iszero ctx =
     (case stack_top ctx 0 of
        Some a \<Rightarrow>
          do {
            wa \<leftarrow> load_word ctx a;
            ctx1 \<leftarrow> store_word ctx a (u64_to_word (if is_zero wa then 1 else 0));
            Some (\<lparr>pc_increment = 1, gas_cost = 3\<rparr>, ctx1)
          }
      | None \<Rightarrow> Some (\<lparr>pc_increment = - 1, gas_cost = 0\<rparr>, ctx))"

definition op_and :: OpHandler where
  "op_and ctx =
     (case (stack_top ctx 0, stack_top ctx 1) of
        (Some a, Some b) \<Rightarrow>
          do {
            wa \<leftarrow> load_word ctx a;
            wb \<leftarrow> load_word ctx b;
            ctx1 \<leftarrow> store_word ctx b (map (\<lambda>i. (wb ! i) AND (wa ! i)) [0..<32]);
            Some (\<lparr>pc_increment = 1, gas_cost = 3\<rparr>, snd (stack_free ctx1 1))
          }
      | _ \<Rightarrow> Some (\<lparr>pc_increment = - 1, gas_cost = 0\<rparr>, ctx))"

definition op_or :: OpHandler where
  "op_or ctx =
     (case (stack_top ctx 0, stack_top ctx 1) of
        (Some a, Some b) \<Rightarrow>
          do {
            wa \<leftarrow> load_word ctx a;
            wb \<leftarrow> load_word ctx b;
            ctx1 \<leftarrow> store_word ctx b (map (\<lambda>i. (wb ! i) OR (wa ! i)) [0..<32]);
            Some (\<lparr>pc_increment = 1, gas_cost = 3\<rparr>, snd (stack_free ctx1 1))
          }
      | _ \<Rightarrow> Some (\<lparr>pc_increment = - 1, gas_cost = 0\<rparr>, ctx))"

definition op_xor :: OpHandler where
  "op_xor ctx =
     (case (stack_top ctx 0, stack_top ctx 1) of
        (Some a, Some b) \<Rightarrow>
          do {
            wa \<leftarrow> load_word ctx a;
            wb \<leftarrow> load_word ctx b;
            ctx1 \<leftarrow> store_word ctx b (map (\<lambda>i. (wb ! i) XOR (wa ! i)) [0..<32]);
            Some (\<lparr>pc_increment = 1, gas_cost = 3\<rparr>, snd (stack_free ctx1 1))
          }
      | _ \<Rightarrow> Some (\<lparr>pc_increment = - 1, gas_cost = 0\<rparr>, ctx))"

definition op_not :: OpHandler where
  "op_not ctx =
     (case stack_top ctx 0 of
        Some a \<Rightarrow>
          do {
            wa \<leftarrow> load_word ctx a;
            ctx1 \<leftarrow> store_word ctx a (map (\<lambda>i. NOT (wa ! i)) [0..<32]);
            Some (\<lparr>pc_increment = 1, gas_cost = 3\<rparr>, ctx1)
          }
      | None \<Rightarrow> Some (\<lparr>pc_increment = - 1, gas_cost = 0\<rparr>, ctx))"

definition op_pop :: OpHandler where
  "op_pop ctx =
     (case stack_free ctx 1 of
        (False, ctx1) \<Rightarrow> Some (\<lparr>pc_increment = - 1, gas_cost = 0\<rparr>, ctx1)
      | (True, ctx1) \<Rightarrow> Some (\<lparr>pc_increment = 1, gas_cost = 2\<rparr>, ctx1))"

definition op_mload :: OpHandler where
  "op_mload ctx =
     (case stack_top ctx 0 of
        None \<Rightarrow> Some (\<lparr>pc_increment = - 1, gas_cost = 0\<rparr>, ctx)
      | Some offset_word \<Rightarrow>
          do {
            w \<leftarrow> load_word ctx offset_word;
            let offset = (ucast (word_to_u64 w) :: 32 word);
            (ok, ctx1) \<leftarrow> ensure_memory ctx offset 32;
            if \<not> ok then Some (\<lparr>pc_increment = - 1, gas_cost = 0\<rparr>, ctx1)
            else do {
              bs \<leftarrow> load_bytes (memory_base ctx1) (uint offset) 32;
              ctx2 \<leftarrow> store_word ctx1 offset_word bs;
              Some (\<lparr>pc_increment = 1, gas_cost = 3\<rparr>, ctx2)
            }
          })"

definition op_mstore :: OpHandler where
  "op_mstore ctx =
     (case (stack_top ctx 0, stack_top ctx 1) of
        (Some offset_word, Some value_word) \<Rightarrow>
          do {
            w \<leftarrow> load_word ctx offset_word;
            let offset = (ucast (word_to_u64 w) :: 32 word);
            (ok, ctx1) \<leftarrow> ensure_memory ctx offset 32;
            if \<not> ok then Some (\<lparr>pc_increment = - 1, gas_cost = 0\<rparr>, ctx1)
            else do {
              v \<leftarrow> load_word ctx1 value_word;
              m \<leftarrow> store_bytes (memory_base ctx1) (uint offset) v;
              Some (\<lparr>pc_increment = 1, gas_cost = 3\<rparr>, snd (stack_free (ctx1\<lparr>memory_base := m\<rparr>) 2))
            }
          }
      | _ \<Rightarrow> Some (\<lparr>pc_increment = - 1, gas_cost = 0\<rparr>, ctx))"

definition op_mstore8 :: OpHandler where
  "op_mstore8 ctx =
     (case (stack_top ctx 0, stack_top ctx 1) of
        (Some offset_word, Some value_word) \<Rightarrow>
          do {
            w \<leftarrow> load_word ctx offset_word;
            let offset = (ucast (word_to_u64 w) :: 32 word);
            (ok, ctx1) \<leftarrow> ensure_memory ctx offset 1;
            if \<not> ok then Some (\<lparr>pc_increment = - 1, gas_cost = 0\<rparr>, ctx1)
            else do {
              v \<leftarrow> load_word ctx1 value_word;
              m \<leftarrow> store_bytes (memory_base ctx1) (uint offset) [v ! 31];
              Some (\<lparr>pc_increment = 1, gas_cost = 3\<rparr>, snd (stack_free (ctx1\<lparr>memory_base := m\<rparr>) 2))
            }
          }
      | _ \<Rightarrow> Some (\<lparr>pc_increment = - 1, gas_cost = 0\<rparr>, ctx))"

definition op_sload :: OpHandler where
  "op_sload ctx =
     (case stack_top ctx 0 of
        None \<Rightarrow> Some (\<lparr>pc_increment = - 1, gas_cost = 0\<rparr>, ctx)
      | Some key_word \<Rightarrow>
          do {
            k \<leftarrow> load_word ctx key_word;
            let addr = contract (frame ctx);
            entry \<leftarrow> storage_find (storage_base ctx) (storage_slot_count (frame ctx)) addr k;
            case entry of
              Some i \<Rightarrow>
                do {
                  let e = storage_base ctx ! i;
                  ctx1 \<leftarrow> store_word ctx key_word (take 32 (val e));
                  let cost = (if is_warm e \<noteq> 0 then 100 else 2100);
                  Some (\<lparr>pc_increment = 1, gas_cost = cost\<rparr>,
                        ctx1\<lparr>storage_base := (storage_base ctx1)[i := e\<lparr>is_warm := 1\<rparr>]\<rparr>)
                }
            | None \<Rightarrow>
                do {
                  ctx1 \<leftarrow> store_word ctx key_word (replicate 32 0);
                  Some (\<lparr>pc_increment = 1, gas_cost = 2100\<rparr>, ctx1)
                }
          })"

definition op_sstore :: OpHandler where
  "op_sstore ctx =
     (if is_static (frame ctx) \<noteq> 0 then
        Some (\<lparr>pc_increment = - 1, gas_cost = 0\<rparr>, ctx\<lparr>frame := (frame ctx)\<lparr>state := 4, halt_reason := 6\<rparr>\<rparr>)
      else
        case (stack_top ctx 0, stack_top ctx 1) of
          (Some key_word, Some value_word) \<Rightarrow>
            do {
              k \<leftarrow> load_word ctx key_word;
              v \<leftarrow> load_word ctx value_word;
              let addr = contract (frame ctx);
              entry \<leftarrow> storage_find (storage_base ctx) (storage_slot_count (frame ctx)) addr k;
              case entry of
                Some i \<Rightarrow>
                  let e = storage_base ctx ! i;
                      is_zero_value = is_zero v;
                      was_zero_original = is_zero (original e);
                      was_zero_current = is_zero (val e);
                      warm = (is_warm e \<noteq> 0);
                      ctx1 = (if is_zero_value \<and> \<not> was_zero_current
                              then ctx\<lparr>frame := (frame ctx)\<lparr>gas_refund := gas_refund (frame ctx) + 4800\<rparr>\<rparr>
                              else ctx);
                      cost = (if is_zero_value then (if warm then 100 else 2100)
                              else if was_zero_current \<and> \<not> was_zero_original
                                then (if warm then 100 else 2100)
                              else if was_zero_current then 20000
                              else (if warm then 100 else 2100));
                      ctx2 = ctx1\<lparr>storage_base := (storage_base ctx1)[i := e\<lparr>val := v, is_warm := 1\<rparr>]\<rparr>
                  in Some (\<lparr>pc_increment = 1, gas_cost = cost\<rparr>, snd (stack_free ctx2 2))
              | None \<Rightarrow>
                  do {
                    (entry', entries, n) \<leftarrow>
                      storage_add (storage_base ctx) (storage_slot_count (frame ctx))
                        (max_storage_slots (frame ctx)) addr k;
                    let ctx1 = ctx\<lparr>storage_base := entries,
                                   frame := (frame ctx)\<lparr>storage_slot_count := n\<rparr>\<rparr>;
                    case entry' of
                      None \<Rightarrow>
                        Some (\<lparr>pc_increment = - 1, gas_cost = 0\<rparr>,
                              ctx1\<lparr>frame := (frame ctx1)\<lparr>state := 4, halt_reason := 2\<rparr>\<rparr>)
                    | Some j \<Rightarrow>
                        let ctx2 = ctx1\<lparr>storage_base :=
                              entries[j := (entries ! j)\<lparr>val := v, original := v, is_warm := 1\<rparr>]\<rparr>
                        in Some (\<lparr>pc_increment = 1, gas_cost = 20000\<rparr>, snd (stack_free ctx2 2))
                  }
            }
        | _ \<Rightarrow> Some (\<lparr>pc_increment = - 1, gas_cost = 0\<rparr>, ctx))"

definition op_jump :: OpHandler where
  "op_jump ctx =
     (case stack_top ctx 0 of
        None \<Rightarrow> Some (\<lparr>pc_increment = - 1, gas_cost = 0\<rparr>, ctx)
      | Some dest_word \<Rightarrow>
          do {
            w \<leftarrow> load_word ctx dest_word;
            let dest = (ucast (word_to_u64 w) :: 32 word);
            if code_size (frame ctx) \<le> dest then
              Some (\<lparr>pc_increment = - 1, gas_cost = 0\<rparr>, ctx\<lparr>frame := (frame ctx)\<lparr>state := 4, halt_reason := 3\<rparr>\<rparr>)
            else do {
              b \<leftarrow> load_byte (code ctx) (uint dest);
              if b \<noteq> 0x5b then
                Some (\<lparr>pc_increment = - 1, gas_cost = 0\<rparr>, ctx\<lparr>frame := (frame ctx)\<lparr>state := 4, halt_reason := 3\<rparr>\<rparr>)
              else
                let ctx1 = snd (stack_free ctx 1)
                in Some (\<lparr>pc_increment = 0, gas_cost = 8\<rparr>, ctx1\<lparr>frame := (frame ctx1)\<lparr>pc := dest\<rparr>\<rparr>)
            }
          })"

definition op_jumpi :: OpHandler where
  "op_jumpi ctx =
     (case (stack_top ctx 0, stack_top ctx 1) of
        (Some dest_word, Some cond_word) \<Rightarrow>
          do {
            c \<leftarrow> load_word ctx cond_word;
            let should_jump = (\<not> is_zero c);
            w \<leftarrow> load_word ctx dest_word;
            let dest = (ucast (word_to_u64 w) :: 32 word);
            let ctx1 = snd (stack_free ctx 2);
            if should_jump then
              if code_size (frame ctx1) \<le> dest then
                Some (\<lparr>pc_increment = - 1, gas_cost = 0\<rparr>, ctx1\<lparr>frame := (frame ctx1)\<lparr>state := 4, halt_reason := 3\<rparr>\<rparr>)
              else do {
                b \<leftarrow> load_byte (code ctx1) (uint dest);
                if b \<noteq> 0x5b then
                  Some (\<lparr>pc_increment = - 1, gas_cost = 0\<rparr>, ctx1\<lparr>frame := (frame ctx1)\<lparr>state := 4, halt_reason := 3\<rparr>\<rparr>)
                else
                  Some (\<lparr>pc_increment = 0, gas_cost = 10\<rparr>, ctx1\<lparr>frame := (frame ctx1)\<lparr>pc := dest\<rparr>\<rparr>)
              }
            else Some (\<lparr>pc_increment = 1, gas_cost = 10\<rparr>, ctx1)
          }
      | _ \<Rightarrow> Some (\<lparr>pc_increment = - 1, gas_cost = 0\<rparr>, ctx))"

definition op_pc :: OpHandler where
  "op_pc ctx =
     (case stack_alloc ctx of
        (None, ctx1) \<Rightarrow> Some (\<lparr>pc_increment = - 1, gas_cost = 0\<rparr>, ctx1)
      | (Some item, ctx1) \<Rightarrow>
          do {
            ctx2 \<leftarrow> store_word ctx1 item (u64_to_word (scast (pc (frame ctx1))));
            Some (\<lparr>pc_increment = 1, gas_cost = 2\<rparr>, ctx2)
          })"

definition op_gas :: OpHandler where
  "op_gas ctx =
     (case stack_alloc ctx of
        (None, ctx1) \<Rightarrow> Some (\<lparr>pc_increment = - 1, gas_cost = 0\<rparr>, ctx1)
      | (Some item, ctx1) \<Rightarrow>
          do {
            ctx2 \<leftarrow> store_word ctx1 item (u64_to_word (gas_remaining (frame ctx1)));
            Some (\<lparr>pc_increment = 1, gas_cost = 2\<rparr>, ctx2)
          })"

definition op_jumpdest :: OpHandler where
  "op_jumpdest ctx = Some (\<lparr>pc_increment = 1, gas_cost = 1\<rparr>, ctx)"

definition op_push0 :: OpHandler where
  "op_push0 ctx =
     (case stack_alloc ctx of
        (None, ctx1) \<Rightarrow> Some (\<lparr>pc_increment = - 1, gas_cost = 0\<rparr>, ctx1)
      | (Some item, ctx1) \<Rightarrow>
          do {
            ctx2 \<leftarrow> store_word ctx1 item (replicate 32 0);
            Some (\<lparr>pc_increment = 1, gas_cost = 2\<rparr>, ctx2)
          })"

text \<open>
  \<^verbatim>\<open>op_push_n\<close> zeroes the new slot and copies \<open>bytes_to_copy\<close> bytes of code to its
  end. With more than 32 bytes the copy would start before the slot.
\<close>

definition op_push_n :: "ExecutionContext \<Rightarrow> int \<Rightarrow> (OpResult \<times> ExecutionContext) option" where
  "op_push_n ctx n =
     (case stack_alloc ctx of
        (None, ctx1) \<Rightarrow> Some (\<lparr>pc_increment = - 1, gas_cost = 0\<rparr>, ctx1)
      | (Some item, ctx1) \<Rightarrow>
          do {
            ctx2 \<leftarrow> store_word ctx1 item (replicate 32 0);
            let bytes_to_copy = min n (sint (code_size (frame ctx2) - pc (frame ctx2) - 1));
            if 0 < bytes_to_copy then
              if bytes_to_copy \<le> 32 then
                do {
                  bs \<leftarrow> load_bytes (code ctx2) (sint (pc (frame ctx2)) + 1) (nat bytes_to_copy);
                  ctx3 \<leftarrow> store_word ctx2 item (replicate (32 - nat bytes_to_copy) 0 @ bs);
                  Some (\<lparr>pc_increment = 1 + n, gas_cost = 3\<rparr>, ctx3)
                }
              else None
            else Some (\<lparr>pc_increment = 1 + n, gas_cost = 3\<rparr>, ctx2)
          })"

definition op_dup_n :: "ExecutionContext \<Rightarrow> int \<Rightarrow> (OpResult \<times> ExecutionContext) option" where
  "op_dup_n ctx n =
     (case stack_top ctx (n - 1) of
        None \<Rightarrow> Some (\<lparr>pc_increment = - 1, gas_cost = 0\<rparr>, ctx)
      | Some source \<Rightarrow>
          (case stack_alloc ctx of
             (None, ctx1) \<Rightarrow> Some (\<lparr>pc_increment = - 1, gas_cost = 0\<rparr>, ctx1)
           | (Some dest, ctx1) \<Rightarrow>
               do {
                 w \<leftarrow> load_word ctx1 source;
                 ctx2 \<leftarrow> store_word ctx1 dest w;
                 Some (\<lparr>pc_increment = 1, gas_cost = 3\<rparr>, ctx2)
               }))"

definition op_swap_n :: "ExecutionContext \<Rightarrow> int \<Rightarrow> (OpResult \<times> ExecutionContext) option" where
  "op_swap_n ctx n =
     (case (stack_top ctx 0, stack_top ctx n) of
        (Some top_word, Some other_word) \<Rightarrow>
          do {
            temp \<leftarrow> load_word ctx top_word;
            w \<leftarrow> load_word ctx other_word;
            ctx1 \<leftarrow> store_word ctx top_word w;
            ctx2 \<leftarrow> store_word ctx1 other_word temp;
            Some (\<lparr>pc_increment = 1, gas_cost = 3\<rparr>, ctx2)
          }
      | _ \<Rightarrow> Some (\<lparr>pc_increment = - 1, gas_cost = 0\<rparr>, ctx))"

definition op_stub :: OpHandler where
  "op_stub ctx = Some (\<lparr>pc_increment = 1, gas_cost = 3\<rparr>, ctx)"

definition op_invalid :: OpHandler where
  "op_invalid ctx =
     Some (\<lparr>pc_increment = - 1, gas_cost = 0\<rparr>, ctx\<lparr>frame := (frame ctx)\<lparr>state := 4, halt_reason := 2\<rparr>\<rparr>)"

subsection \<open>PUSH, DUP and SWAP wrappers\<close>

definition PUSH_HANDLER :: "int \<Rightarrow> OpHandler" where
  "PUSH_HANDLER n = (\<lambda>ctx. op_push_n ctx n)"

definition DUP_HANDLER :: "int \<Rightarrow> OpHandler" where
  "DUP_HANDLER n = (\<lambda>ctx. op_dup_n ctx n)"

definition SWAP_HANDLER :: "int \<Rightarrow> OpHandler" where
  "SWAP_HANDLER n = (\<lambda>ctx. op_swap_n ctx n)"

subsection \<open>Handler table\<close>

definition JUMP_TABLE :: "OpHandler list" where
  "JUMP_TABLE =
    [op_stop, op_add, op_mul, op_sub, op_div, op_stub, op_mod, op_stub,
     op_stub, op_stub, op_stub, op_stub, op_stub, op_stub, op_stub, op_stub,
     op_lt, op_gt, op_stub, op_stub, op_eq, op_iszero, op_and, op_or,
     op_xor, op_not, op_stub, op_stub, op_stub, op_stub, op_stub, op_stub,
     op_stub, op_stub, op_stub, op_stub, op_stub, op_stub, op_stub, op_stub,
     op_stub, op_stub, op_stub, op_stub, op_stub, op_stub, op_stub, op_stub,
     op_stub, op_stub, op_stub, op_stub, op_stub, op_stub, op_stub, op_stub,
     op_stub, op_stub, op_stub, op_stub, op_stub, op_stub, op_stub, op_stub,
     op_stub, op_stub, op_stub, op_stub, op_sload, op_sstore, op_stub, op_stub,
     op_stub, op_stub, op_stub, op_stub, op_stub, op_stub, op_stub, op_stub,
     op_pop, op_mload, op_mstore, op_mstore8, op_stub, op_stub, op_jump, op_jumpi,
     op_pc, op_stub, op_gas, op_jumpdest, op_stub, op_stub, op_stub, op_push0,
     PUSH_HANDLER 1, PUSH_HANDLER 2, PUSH_HANDLER 3, PUSH_HANDLER 4,
     PUSH_HANDLER 5, PUSH_HANDLER 6, PUSH_HANDLER 7, PUSH_HANDLER 8,
     PUSH_HANDLER 9, PUSH_HANDLER 10, PUSH_HANDLER 11, PUSH_HANDLER 12,
     PUSH_HANDLER 13, PUSH_HANDLER 14, PUSH_HANDLER 15, PUSH_HANDLER 16,
     PUSH_HANDLER 17, PUSH_HANDLER 18, PUSH_HANDLER 19, PUSH_HANDLER 20,
     PUSH_HANDLER 21, PUSH_HANDLER 22, PUSH_HANDLER 23, PUSH_HANDLER 24,
     PUSH_HANDLER 25, PUSH_HANDLER 26, PUSH_HANDLER 27, PUSH_HANDLER 28,
     PUSH_HANDLER 29, PUSH_HANDLER 30, PUSH_HANDLER 31, PUSH_HANDLER 32,
     DUP_HANDLER 1, DUP_HANDLER 2, DUP_HANDLER 3, DUP_HANDLER 4,
     DUP_HANDLER 5, DUP_HANDLER 6, DUP_HANDLER 7, DUP_HANDLER 8,
     DUP_HANDLER 9, DUP_HANDLER 10, DUP_HANDLER 11, DUP_HANDLER 12,
     DUP_HANDLER 13, DUP_HANDLER 14, DUP_HANDLER 15, DUP_HANDLER 16,
     SWAP_HANDLER 1, SWAP_HANDLER 2, SWAP_HANDLER 3, SWAP_HANDLER 4,
     SWAP_HANDLER 5, SWAP_HANDLER 6, SWAP_HANDLER 7, SWAP_HANDLER 8,
     SWAP_HANDLER 9, SWAP_HANDLER 10, SWAP_HANDLER 11, SWAP_HANDLER 12,
     SWAP_HANDLER 13, SWAP_HANDLER 14, SWAP_HANDLER 15, SWAP_HANDLER 16,
     op_stub, op_stub, op_stub, op_stub, op_stub, op_stub, op_stub, op_stub,
     op_stub, op_stub, op_stub, op_stub, op_stub, op_stub, op_stub, op_stub,
     op_stub, op_stub, op_stub, op_stub, op_stub, op_stub, op_stub, op_stub,
     op_stub, op_stub, op_stub, op_stub, op_stub, op_stub, op_stub, op_stub,
     op_stub, op_stub, op_stub, op_stub, op_stub, op_stub, op_stub, op_stub,
     op_stub, op_stub, op_stub, op_stub, op_stub, op_stub, op_stub, op_stub,
     op_stub, op_stub, op_stub, op_stub, op_stub, op_stub, op_stub, op_stub,
     op_stub, op_stub, op_stub, op_stub, op_stub, op_stub, op_stub, op_stub,
     op_stub, op_stub, op_stub, op_stub, op_stub, op_stub, op_stub, op_stub,
     op_stub, op_stub, op_stub, op_stub, op_stub, op_stub, op_stub, op_stub,
     op_stub, op_stub, op_stub, op_stub, op_stub, op_stub, op_stub, op_stub,
     op_stub, op_stub, op_stub, op_stub, op_stub, op_invalid, op_invalid, op_invalid]"

section \<open>Tracer callbacks\<close>

text \<open>
  \<^verbatim>\<open>TracerCallbacks\<close> is a pair of function pointers of the host; a field is \<open>True\<close>
  when the pointer is not null. The host's callbacks observe the shared region and do not
  change it: a call is recorded as an event appended to the trace. A call through a null
  pointer has no meaning (\<open>None\<close>).
\<close>

datatype OperationResult = OperationResult "64 word" "32 word" "32 word"

datatype trace_event =
  TracePre ExecutionContext
| TracePost ExecutionContext OperationResult

record TracerCallbacks =
  trace_pre_execution :: bool
  trace_post_execution :: bool

definition call_trace_pre ::
  "TracerCallbacks option \<Rightarrow> ExecutionContext \<Rightarrow> trace_event list \<Rightarrow> trace_event list option" where
  "call_trace_pre tracer ctx tr =
     (case tracer of
        Some t \<Rightarrow> if trace_pre_execution t then Some (tr @ [TracePre ctx]) else None
      | None \<Rightarrow> None)"

definition call_trace_post ::
  "TracerCallbacks option \<Rightarrow> ExecutionContext \<Rightarrow> OperationResult \<Rightarrow> trace_event list \<Rightarrow>
     trace_event list option" where
  "call_trace_post tracer ctx op_result tr =
     (case tracer of
        Some t \<Rightarrow> if trace_post_execution t then Some (tr @ [TracePost ctx op_result]) else None
      | None \<Rightarrow> None)"

section \<open>Main execution loop\<close>

text \<open>
  One pass through the body of the \<^verbatim>\<open>while\<close> loop of \<^verbatim>\<open>execute_message\<close>: it either
  returns from \<^verbatim>\<open>execute_message\<close> (\<open>Return\<close>) or reaches the end of the body
  (\<open>Continue\<close>).
\<close>

datatype 'a iteration = Continue 'a | Return 'a

definition loop_body ::
  "TracerCallbacks option \<Rightarrow> bool \<Rightarrow> ExecutionContext \<Rightarrow> trace_event list \<Rightarrow>
     (ExecutionContext \<times> trace_event list) iteration option" where
  "loop_body tracer has_tracer ctx tr =
     (if gas_remaining (frame ctx) <s 3 then
        Some (Return (ctx\<lparr>frame := (frame ctx)\<lparr>state := 4, halt_reason := 1\<rparr>\<rparr>, tr))
      else
        do {
          opcode \<leftarrow> load_byte (code ctx) (sint (pc (frame ctx)));
          tr1 \<leftarrow> (if has_tracer then call_trace_pre tracer ctx tr else Some tr);
          (result, ctx1) \<leftarrow> (JUMP_TABLE ! unat opcode) ctx;
          if pc_increment result < 0 then
            Some (Return
              (if state (frame ctx1) = 1
               then ctx1\<lparr>frame := (frame ctx1)\<lparr>state := 4, halt_reason := 4\<rparr>\<rparr>
               else ctx1, tr1))
          else if sint (gas_remaining (frame ctx1)) < gas_cost result then
            Some (Return (ctx1\<lparr>frame := (frame ctx1)\<lparr>state := 4, halt_reason := 1\<rparr>\<rparr>, tr1))
          else
            do {
              let ctx2 = ctx1\<lparr>frame := (frame ctx1)\<lparr>gas_remaining :=
                           gas_remaining (frame ctx1) - word_of_int (gas_cost result)\<rparr>\<rparr>;
              tr2 \<leftarrow> (if has_tracer
                      then call_trace_post tracer ctx2
                             (OperationResult (word_of_int (gas_cost result)) 0
                                (word_of_int (pc_increment result))) tr1
                      else Some tr1);
              let ctx3 = (if 0 < pc_increment result
                          then ctx2\<lparr>frame := (frame ctx2)\<lparr>pc :=
                                 pc (frame ctx2) + word_of_int (pc_increment result)\<rparr>\<rparr>
                          else ctx2);
              Some (Continue (ctx3, tr2))
            }
        })"

section \<open>Layout invariants of the control block\<close>

text \<open>
  \<open>stack_size\<close> lies between 0 and 1024 and \<open>memory_size\<close> is a multiple of 32.
\<close>

definition frame_invariant :: "MessageFrameMemory \<Rightarrow> bool" where
  "frame_invariant f \<longleftrightarrow>
     0 \<le> sint (stack_size f) \<and> sint (stack_size f) \<le> 1024 \<and> sint (memory_size f) mod 32 = 0"

text \<open>
  What a handler may do to the control block: it leaves \<open>gas_remaining\<close> alone, its
  cost lies between 0 and 20000, a handler that neither signals an error nor leaves the
  state \<open>CODE_EXECUTING\<close> (1) costs at least 1 gas, and it keeps the layout invariant.
\<close>

definition handler_effect :: "MessageFrameMemory \<Rightarrow> OpResult \<Rightarrow> MessageFrameMemory \<Rightarrow> bool" where
  "handler_effect f r f' \<longleftrightarrow>
     gas_remaining f' = gas_remaining f \<and>
     0 \<le> gas_cost r \<and> gas_cost r \<le> 20000 \<and>
     (0 \<le> pc_increment r \<and> state f' = 1 \<longrightarrow> 1 \<le> gas_cost r) \<and>
     (frame_invariant f \<longrightarrow> frame_invariant f')"

lemma store_word_frame: "store_word ctx p w = Some ctx' \<Longrightarrow> frame ctx' = frame ctx"
  by (auto simp: store_word_def split: if_splits)

lemma sint_plus_1: "sint (x :: 32 word) < 1024 \<Longrightarrow> sint (x + 1) = sint x + 1"
  using sint_ge [of x] by (simp add: sint_word_ariths signed_take_bit_int_eq_self_iff)

lemma sint_minus_small:
  "0 \<le> n \<Longrightarrow> n \<le> sint (x :: 32 word) \<Longrightarrow> sint (x - word_of_int n) = sint x - n"
proof -
  assume n: "0 \<le> n" "n \<le> sint x"
  have x: "sint x < 2 ^ 31"
    using sint_lt [of x] by simp
  have "signed_take_bit 31 n = n"
    using n x by (simp add: signed_take_bit_int_eq_self_iff)
  moreover have "signed_take_bit 31 (sint x - n) = sint x - n"
    using n x by (simp add: signed_take_bit_int_eq_self_iff)
  ultimately show ?thesis
    by (simp add: sint_word_ariths sint_sbintrunc')
qed

lemma stack_free_inv:
  "0 \<le> n \<Longrightarrow> frame_invariant (frame ctx) \<Longrightarrow> frame_invariant (frame (snd (stack_free ctx n)))"
  by (auto simp: stack_free_def frame_invariant_def sint_minus_small)

lemma stack_free_gas:
  "gas_remaining (frame (snd (stack_free ctx n))) = gas_remaining (frame ctx)"
  "state (frame (snd (stack_free ctx n))) = state (frame ctx)"
  by (auto simp: stack_free_def)

lemma stack_alloc_inv:
  "stack_alloc ctx = (p, ctx') \<Longrightarrow> frame_invariant (frame ctx) \<Longrightarrow> frame_invariant (frame ctx')"
  by (auto simp: stack_alloc_def frame_invariant_def word_sle_eq sint_plus_1 split: if_splits)

lemma stack_alloc_gas:
  "stack_alloc ctx = (p, ctx') \<Longrightarrow> gas_remaining (frame ctx') = gas_remaining (frame ctx)"
  "stack_alloc ctx = (p, ctx') \<Longrightarrow> state (frame ctx') = state (frame ctx)"
  by (auto simp: stack_alloc_def split: if_splits)

lemma sint_mod_32: "sint (x :: 32 word) mod 32 = uint x mod 32"
proof -
  have "sint x mod 32 = take_bit 5 (sint x)"
    by (simp add: take_bit_eq_mod)
  also have "\<dots> = take_bit 5 (uint x)"
    by (simp add: sint_uint take_bit_signed_take_bit)
  finally show ?thesis
    by (simp add: take_bit_eq_mod)
qed

lemma new_size_aligned:
  "sint (ucast (q * 32 :: 64 word) :: 32 word) mod 32 = 0"
proof -
  have "uint (ucast (q * 32 :: 64 word) :: 32 word) = (uint q * 32 mod 2 ^ 64) mod 2 ^ 32"
    by (simp add: uint_word_ariths unsigned_ucast_eq take_bit_eq_mod)
  moreover have "(uint q * 32 mod 2 ^ 64) mod 2 ^ 32 mod 32 = (0::int)"
    by (simp add: mod_mod_cancel)
  ultimately show ?thesis
    unfolding sint_mod_32 by simp
qed

lemma ensure_memory_frame:
  "ensure_memory ctx off sz = Some (ok, ctx') \<Longrightarrow>
     gas_remaining (frame ctx') = gas_remaining (frame ctx) \<and>
     state (frame ctx') = state (frame ctx) \<and>
     (frame_invariant (frame ctx) \<longrightarrow> frame_invariant (frame ctx'))"
  unfolding ensure_memory_def Let_def
  by (auto simp: frame_invariant_def new_size_aligned split: if_splits Option.bind_splits)


lemma frame_invariant_updates:
  "frame_invariant (f\<lparr>state := a\<rparr>) = frame_invariant f"
  "frame_invariant (f\<lparr>halt_reason := b\<rparr>) = frame_invariant f"
  "frame_invariant (f\<lparr>pc := c\<rparr>) = frame_invariant f"
  "frame_invariant (f\<lparr>gas_refund := d\<rparr>) = frame_invariant f"
  "frame_invariant (f\<lparr>gas_remaining := e\<rparr>) = frame_invariant f"
  "frame_invariant (f\<lparr>storage_slot_count := n\<rparr>) = frame_invariant f"
  by (simp_all add: frame_invariant_def)

lemma stack_free_eq_inv:
  "stack_free ctx n = (ok, ctx') \<Longrightarrow> 0 \<le> n \<Longrightarrow> frame_invariant (frame ctx) \<Longrightarrow>
     frame_invariant (frame ctx')"
  using stack_free_inv [of n ctx] by simp

lemma stack_free_eq_gas:
  "stack_free ctx n = (ok, ctx') \<Longrightarrow> gas_remaining (frame ctx') = gas_remaining (frame ctx)"
  "stack_free ctx n = (ok, ctx') \<Longrightarrow> state (frame ctx') = state (frame ctx)"
  using stack_free_gas [of ctx n] by simp_all

lemmas effect_simps =
  Let_def store_word_frame stack_free_inv stack_free_gas stack_alloc_inv stack_alloc_gas
  stack_free_eq_inv stack_free_eq_gas
  frame_invariant_updates

lemma op_stop_effect: "op_stop ctx = Some (r, ctx') \<Longrightarrow> handler_effect (frame ctx) r (frame ctx')"
  unfolding op_stop_def handler_effect_def
  by (auto split: option.splits prod.splits if_splits bool.splits Option.bind_splits simp: effect_simps
      dest!: ensure_memory_frame)

lemma op_add_effect: "op_add ctx = Some (r, ctx') \<Longrightarrow> handler_effect (frame ctx) r (frame ctx')"
  unfolding op_add_def handler_effect_def
  by (auto split: option.splits prod.splits if_splits bool.splits Option.bind_splits simp: effect_simps
      dest!: ensure_memory_frame)

lemma op_mul_effect: "op_mul ctx = Some (r, ctx') \<Longrightarrow> handler_effect (frame ctx) r (frame ctx')"
  unfolding op_mul_def handler_effect_def
  by (auto split: option.splits prod.splits if_splits bool.splits Option.bind_splits simp: effect_simps
      dest!: ensure_memory_frame)

lemma op_sub_effect: "op_sub ctx = Some (r, ctx') \<Longrightarrow> handler_effect (frame ctx) r (frame ctx')"
  unfolding op_sub_def handler_effect_def
  by (auto split: option.splits prod.splits if_splits bool.splits Option.bind_splits simp: effect_simps
      dest!: ensure_memory_frame)

lemma op_div_effect: "op_div ctx = Some (r, ctx') \<Longrightarrow> handler_effect (frame ctx) r (frame ctx')"
  unfolding op_div_def handler_effect_def
  by (auto split: option.splits prod.splits if_splits bool.splits Option.bind_splits simp: effect_simps
      dest!: ensure_memory_frame)

lemma op_mod_effect: "op_mod ctx = Some (r, ctx') \<Longrightarrow> handler_effect (frame ctx) r (frame ctx')"
  unfolding op_mod_def handler_effect_def
  by (auto split: option.splits prod.splits if_splits bool.splits Option.bind_splits simp: effect_simps
      dest!: ensure_memory_frame)

lemma op_lt_effect: "op_lt ctx = Some (r, ctx') \<Longrightarrow> handler_effect (frame ctx) r (frame ctx')"
  unfolding op_lt_def handler_effect_def
  by (auto split: option.splits prod.splits if_splits bool.splits Option.bind_splits simp: effect_simps
      dest!: ensure_memory_frame)

lemma op_gt_effect: "op_gt ctx = Some (r, ctx') \<Longrightarrow> handler_effect (frame ctx) r (frame ctx')"
  unfolding op_gt_def handler_effect_def
  by (auto split: option.splits prod.splits if_splits bool.splits Option.bind_splits simp: effect_simps
      dest!: ensure_memory_frame)

lemma op_eq_effect: "op_eq ctx = Some (r, ctx') \<Longrightarrow> handler_effect (frame ctx) r (frame ctx')"
  unfolding op_eq_def handler_effect_def
  by (auto split: option.splits prod.splits if_splits bool.splits Option.bind_splits simp: effect_simps
      dest!: ensure_memory_frame)

lemma op_iszero_effect: "op_iszero ctx = Some (r, ctx') \<Longrightarrow> handler_effect (frame ctx) r (frame ctx')"
  unfolding op_iszero_def handler_effect_def
  by (auto split: option.splits prod.splits if_splits bool.splits Option.bind_splits simp: effect_simps
      dest!: ensure_memory_frame)

lemma op_and_effect: "op_and ctx = Some (r, ctx') \<Longrightarrow> handler_effect (frame ctx) r (frame ctx')"
  unfolding op_and_def handler_effect_def
  by (auto split: option.splits prod.splits if_splits bool.splits Option.bind_splits simp: effect_simps
      dest!: ensure_memory_frame)

lemma op_or_effect: "op_or ctx = Some (r, ctx') \<Longrightarrow> handler_effect (frame ctx) r (frame ctx')"
  unfolding op_or_def handler_effect_def
  by (auto split: option.splits prod.splits if_splits bool.splits Option.bind_splits simp: effect_simps
      dest!: ensure_memory_frame)

lemma op_xor_effect: "op_xor ctx = Some (r, ctx') \<Longrightarrow> handler_effect (frame ctx) r (frame ctx')"
  unfolding op_xor_def handler_effect_def
  by (auto split: option.splits prod.splits if_splits bool.splits Option.bind_splits simp: effect_simps
      dest!: ensure_memory_frame)

lemma op_not_effect: "op_not ctx = Some (r, ctx') \<Longrightarrow> handler_effect (frame ctx) r (frame ctx')"
  unfolding op_not_def handler_effect_def
  by (auto split: option.splits prod.splits if_splits bool.splits Option.bind_splits simp: effect_simps
      dest!: ensure_memory_frame)

lemma op_pop_effect: "op_pop ctx = Some (r, ctx') \<Longrightarrow> handler_effect (frame ctx) r (frame ctx')"
  unfolding op_pop_def handler_effect_def
  by (auto split: option.splits prod.splits if_splits bool.splits Option.bind_splits simp: effect_simps
      dest!: ensure_memory_frame)

lemma op_mload_effect: "op_mload ctx = Some (r, ctx') \<Longrightarrow> handler_effect (frame ctx) r (frame ctx')"
  unfolding op_mload_def handler_effect_def
  by (auto split: option.splits prod.splits if_splits bool.splits Option.bind_splits simp: effect_simps
      dest!: ensure_memory_frame)

lemma op_mstore_effect: "op_mstore ctx = Some (r, ctx') \<Longrightarrow> handler_effect (frame ctx) r (frame ctx')"
  unfolding op_mstore_def handler_effect_def
  by (auto split: option.splits prod.splits if_splits bool.splits Option.bind_splits simp: effect_simps
      dest!: ensure_memory_frame)

lemma op_mstore8_effect: "op_mstore8 ctx = Some (r, ctx') \<Longrightarrow> handler_effect (frame ctx) r (frame ctx')"
  unfolding op_mstore8_def handler_effect_def
  by (auto split: option.splits prod.splits if_splits bool.splits Option.bind_splits simp: effect_simps
      dest!: ensure_memory_frame)

lemma op_sload_effect: "op_sload ctx = Some (r, ctx') \<Longrightarrow> handler_effect (frame ctx) r (frame ctx')"
  unfolding op_sload_def handler_effect_def
  by (auto split: option.splits prod.splits if_splits bool.splits Option.bind_splits simp: effect_simps
      dest!: ensure_memory_frame)

lemma op_sstore_effect: "op_sstore ctx = Some (r, ctx') \<Longrightarrow> handler_effect (frame ctx) r (frame ctx')"
  unfolding op_sstore_def handler_effect_def
  by (auto split: option.splits prod.splits if_splits bool.splits Option.bind_splits simp: effect_simps
      dest!: ensure_memory_frame)

lemma op_jump_effect: "op_jump ctx = Some (r, ctx') \<Longrightarrow> handler_effect (frame ctx) r (frame ctx')"
  unfolding op_jump_def handler_effect_def
  by (auto split: option.splits prod.splits if_splits bool.splits Option.bind_splits simp: effect_simps
      dest!: ensure_memory_frame)

lemma op_jumpi_effect: "op_jumpi ctx = Some (r, ctx') \<Longrightarrow> handler_effect (frame ctx) r (frame ctx')"
  unfolding op_jumpi_def handler_effect_def
  by (auto split: option.splits prod.splits if_splits bool.splits Option.bind_splits simp: effect_simps
      dest!: ensure_memory_frame)

lemma op_pc_effect: "op_pc ctx = Some (r, ctx') \<Longrightarrow> handler_effect (frame ctx) r (frame ctx')"
  unfolding op_pc_def handler_effect_def
  by (auto split: option.splits prod.splits if_splits bool.splits Option.bind_splits simp: effect_simps
      dest!: ensure_memory_frame)

lemma op_gas_effect: "op_gas ctx = Some (r, ctx') \<Longrightarrow> handler_effect (frame ctx) r (frame ctx')"
  unfolding op_gas_def handler_effect_def
  by (auto split: option.splits prod.splits if_splits bool.splits Option.bind_splits simp: effect_simps
      dest!: ensure_memory_frame)

lemma op_jumpdest_effect: "op_jumpdest ctx = Some (r, ctx') \<Longrightarrow> handler_effect (frame ctx) r (frame ctx')"
  unfolding op_jumpdest_def handler_effect_def
  by (auto split: option.splits prod.splits if_splits bool.splits Option.bind_splits simp: effect_simps
      dest!: ensure_memory_frame)

lemma op_push0_effect: "op_push0 ctx = Some (r, ctx') \<Longrightarrow> handler_effect (frame ctx) r (frame ctx')"
  unfolding op_push0_def handler_effect_def
  by (auto split: option.splits prod.splits if_splits bool.splits Option.bind_splits simp: effect_simps
      dest!: ensure_memory_frame)

lemma op_stub_effect: "op_stub ctx = Some (r, ctx') \<Longrightarrow> handler_effect (frame ctx) r (frame ctx')"
  unfolding op_stub_def handler_effect_def
  by (auto split: option.splits prod.splits if_splits bool.splits Option.bind_splits simp: effect_simps
      dest!: ensure_memory_frame)

lemma op_invalid_effect: "op_invalid ctx = Some (r, ctx') \<Longrightarrow> handler_effect (frame ctx) r (frame ctx')"
  unfolding op_invalid_def handler_effect_def
  by (auto split: option.splits prod.splits if_splits bool.splits Option.bind_splits simp: effect_simps
      dest!: ensure_memory_frame)

lemma op_push_n_effect: "op_push_n ctx n = Some (r, ctx') \<Longrightarrow> handler_effect (frame ctx) r (frame ctx')"
  unfolding op_push_n_def handler_effect_def
  by (auto split: option.splits prod.splits if_splits bool.splits Option.bind_splits simp: effect_simps)

lemma op_dup_n_effect: "op_dup_n ctx n = Some (r, ctx') \<Longrightarrow> handler_effect (frame ctx) r (frame ctx')"
  unfolding op_dup_n_def handler_effect_def
  by (auto split: option.splits prod.splits if_splits bool.splits Option.bind_splits simp: effect_simps)

lemma op_swap_n_effect: "op_swap_n ctx n = Some (r, ctx') \<Longrightarrow> handler_effect (frame ctx) r (frame ctx')"
  unfolding op_swap_n_def handler_effect_def
  by (auto split: option.splits prod.splits if_splits bool.splits Option.bind_splits simp: effect_simps)


lemma JUMP_TABLE_length: "length JUMP_TABLE = 256"
  by (simp add: JUMP_TABLE_def)

lemma JUMP_TABLE_effect_all:
  "\<forall>h \<in> set JUMP_TABLE. \<forall>ctx r ctx'. h ctx = Some (r, ctx') \<longrightarrow>
      handler_effect (frame ctx) r (frame ctx')"
  unfolding JUMP_TABLE_def PUSH_HANDLER_def DUP_HANDLER_def SWAP_HANDLER_def
  by (simp add: op_stop_effect op_add_effect op_mul_effect op_sub_effect op_div_effect
      op_mod_effect op_lt_effect op_gt_effect op_eq_effect op_iszero_effect op_and_effect
      op_or_effect op_xor_effect op_not_effect op_pop_effect op_mload_effect op_mstore_effect
      op_mstore8_effect op_sload_effect op_sstore_effect op_jump_effect op_jumpi_effect
      op_pc_effect op_gas_effect op_jumpdest_effect op_push0_effect op_stub_effect
      op_invalid_effect op_push_n_effect op_dup_n_effect op_swap_n_effect)

lemma JUMP_TABLE_effect:
  "(JUMP_TABLE ! unat (opcode :: byte)) ctx = Some (r, ctx') \<Longrightarrow>
     handler_effect (frame ctx) r (frame ctx')"
proof -
  assume h: "(JUMP_TABLE ! unat opcode) ctx = Some (r, ctx')"
  have "unat opcode < 256"
    using unsigned_less [of opcode] by simp
  then have "JUMP_TABLE ! unat opcode \<in> set JUMP_TABLE"
    by (simp add: JUMP_TABLE_length)
  with JUMP_TABLE_effect_all h show ?thesis
    by blast
qed


lemma sint64_minus_small:
  "0 \<le> n \<Longrightarrow> n \<le> sint (x :: 64 word) \<Longrightarrow> sint (x - word_of_int n) = sint x - n"
proof -
  assume n: "0 \<le> n" "n \<le> sint x"
  have x: "sint x < 2 ^ 63"
    using sint_lt [of x] by simp
  have "signed_take_bit 63 n = n"
    using n x by (simp add: signed_take_bit_int_eq_self_iff)
  moreover have "signed_take_bit 63 (sint x - n) = sint x - n"
    using n x by (simp add: signed_take_bit_int_eq_self_iff)
  ultimately show ?thesis
    by (simp add: sint_word_ariths sint_sbintrunc')
qed

lemma loop_body_Continue:
  assumes "loop_body tracer has_tracer ctx tr = Some (Continue (ctx', tr'))"
  shows "3 \<le> sint (gas_remaining (frame ctx))"
    and "sint (gas_remaining (frame ctx')) \<le> sint (gas_remaining (frame ctx))"
    and "state (frame ctx') = 1 \<Longrightarrow>
           sint (gas_remaining (frame ctx')) < sint (gas_remaining (frame ctx))"
    and "frame_invariant (frame ctx) \<Longrightarrow> frame_invariant (frame ctx')"
  using assms unfolding loop_body_def
  by (auto simp: Let_def word_sless_alt handler_effect_def sint64_minus_small frame_invariant_updates
      split: if_splits Option.bind_splits prod.splits dest!: JUMP_TABLE_effect)

text \<open>
  The \<^verbatim>\<open>while\<close> loop of \<^verbatim>\<open>execute_message\<close> and the state update after it. The
  measure of the termination proof is the remaining gas while the frame is executing.
\<close>

function execute_loop ::
  "TracerCallbacks option \<Rightarrow> bool \<Rightarrow> ExecutionContext \<Rightarrow> trace_event list \<Rightarrow>
     (ExecutionContext \<times> trace_event list) option" where
  "execute_loop tracer has_tracer ctx tr =
     (if pc (frame ctx) <s code_size (frame ctx) \<and> state (frame ctx) = 1 then
        (case loop_body tracer has_tracer ctx tr of
           None \<Rightarrow> None
         | Some (Return res) \<Rightarrow> Some res
         | Some (Continue (ctx', tr')) \<Rightarrow> execute_loop tracer has_tracer ctx' tr')
      else
        Some (if state (frame ctx) = 1
              then ctx\<lparr>frame := (frame ctx)\<lparr>state := 7\<rparr>\<rparr>
              else ctx, tr))"
  by pat_completeness auto
termination
proof (relation "measure (\<lambda>(tracer, has_tracer, ctx, tr).
          if state (frame ctx) = 1 then nat (sint (gas_remaining (frame ctx))) + 1 else 0)")
  show "wf (measure (\<lambda>(tracer, has_tracer, ctx, tr).
          if state (frame ctx) = 1 then nat (sint (gas_remaining (frame ctx))) + 1 else 0))"
    by simp
next
  fix tracer has_tracer ctx tr x2 x1 ctx' tr'
  assume c: "pc (frame ctx) <s code_size (frame ctx) \<and> state (frame ctx) = 1"
    and b: "loop_body tracer has_tracer ctx tr = Some x2" "x2 = Continue x1" "(ctx', tr') = x1"
  from b have body: "loop_body tracer has_tracer ctx tr = Some (Continue (ctx', tr'))"
    by simp
  show "((tracer, has_tracer, ctx', tr'), (tracer, has_tracer, ctx, tr))
      \<in> measure (\<lambda>(tracer, has_tracer, ctx, tr).
          if state (frame ctx) = 1 then nat (sint (gas_remaining (frame ctx))) + 1 else 0)"
    using c loop_body_Continue(1) [OF body] loop_body_Continue(3) [OF body]
    by auto
qed

declare execute_loop.simps [simp del]


text \<open>
  \<^verbatim>\<open>execute_message(frame, tracer)\<close> for a frame pointer that is not null. The result is
  the shared region on return and the trace the callbacks have seen.
\<close>

definition execute_message ::
  "ExecutionContext \<Rightarrow> TracerCallbacks option \<Rightarrow> (ExecutionContext \<times> trace_event list) option" where
  "execute_message ctx0 tracer =
     (let ctx = ctx0\<lparr>frame := (frame ctx0)\<lparr>state := 1\<rparr>\<rparr>;
          has_tracer = (case tracer of None \<Rightarrow> False | Some t \<Rightarrow> trace_pre_execution t)
      in execute_loop tracer has_tracer ctx [])"

text \<open>
  \<open>has_tracer_of\<close> is the flag \<^verbatim>\<open>has_tracer\<close> that \<^verbatim>\<open>execute_message\<close> computes. A
  tracer is usable when every callback the loop will call is present.
\<close>

definition tracer_ok :: "TracerCallbacks option \<Rightarrow> bool" where
  "tracer_ok tracer \<longleftrightarrow>
     (case tracer of None \<Rightarrow> True | Some t \<Rightarrow> trace_pre_execution t \<longrightarrow> trace_post_execution t)"

definition has_tracer_of :: "TracerCallbacks option \<Rightarrow> bool" where
  "has_tracer_of tracer = (case tracer of None \<Rightarrow> False | Some t \<Rightarrow> trace_pre_execution t)"

lemma loop_body_erase:
  assumes "tracer_ok tracer"
  shows "map_option (map_iteration fst) (loop_body tracer (has_tracer_of tracer) ctx tr) =
         map_option (map_iteration fst) (loop_body None False ctx tr0)"
  using assms unfolding loop_body_def tracer_ok_def has_tracer_of_def call_trace_pre_def call_trace_post_def
  by (auto simp: Let_def split: option.splits Option.bind_splits prod.splits if_splits)

lemma execute_loop_erase:
  assumes "tracer_ok tracer"
  shows "map_option fst (execute_loop tracer (has_tracer_of tracer) ctx tr) =
         map_option fst (execute_loop None False ctx tr0)"
  using assms
proof (induction tracer "has_tracer_of tracer" ctx tr arbitrary: tr0 rule: execute_loop.induct)
  case (1 tracer ctx tr)
  note ok = \<open>tracer_ok tracer\<close>
  note u1 = execute_loop.simps [of tracer "has_tracer_of tracer" ctx tr]
  note u2 = execute_loop.simps [of None False ctx tr0]
  show ?case
  proof (cases "pc (frame ctx) <s code_size (frame ctx) \<and> state (frame ctx) = 1")
    case False
    then show ?thesis
      by (auto simp: u1 u2)
  next
    case True
    note e = loop_body_erase [OF ok, of ctx tr tr0]
    show ?thesis
    proof (cases "loop_body tracer (has_tracer_of tracer) ctx tr")
      case None
      with e have "loop_body None False ctx tr0 = None"
        by simp
      with None True show ?thesis
        by (auto simp: u1 u2)
    next
      case (Some it)
      then obtain it0 where it0: "loop_body None False ctx tr0 = Some it0"
        and m: "map_iteration fst it = map_iteration fst it0"
        using e by (cases "loop_body None False ctx tr0") auto
      show ?thesis
      proof (cases it)
        case (Return res)
        with m obtain res0 where "it0 = Return res0" "fst res = fst res0"
          by (cases it0) auto
        with Return Some it0 True show ?thesis
          by (auto simp: u1 u2)
      next
        case (Continue res)
        obtain c t where res: "res = (c, t)"
          by (cases res)
        with Continue m obtain t0 where i0: "it0 = Continue (c, t0)"
          by (cases it0) auto
        have "map_option fst (execute_loop tracer (has_tracer_of tracer) c t) =
              map_option fst (execute_loop None False c t0)"
          using "1.hyps" [OF True Some Continue res [symmetric] ok] .
        with Continue res i0 Some it0 True show ?thesis
          by (auto simp: u1 u2)
      qed
    qed
  qed
qed


lemma execute_message_loop:
  "execute_message ctx0 tracer =
     execute_loop tracer (has_tracer_of tracer) (ctx0\<lparr>frame := (frame ctx0)\<lparr>state := 1\<rparr>\<rparr>) []"
  by (simp add: execute_message_def has_tracer_of_def)

lemma execute_message_erase:
  "tracer_ok tracer \<Longrightarrow>
     map_option fst (execute_message ctx0 tracer) = map_option fst (execute_message ctx0 None)"
  using execute_loop_erase [of tracer _ "[]" "[]"] execute_loop_erase [of None _ "[]" "[]"]
  by (simp add: execute_message_loop has_tracer_of_def tracer_ok_def)

section \<open>Example frames\<close>

text \<open>
  Concrete shared regions at which the theorems below are instantiated. The stack plane
  has its 1024 slots and the memory plane its 1 MiB.
\<close>

definition simple_add_ctx :: ExecutionContext where
  "simple_add_ctx =
     \<lparr>frame = \<lparr>pc = 0, gas_remaining = 1000000, gas_refund = 0, stack_size = 0, memory_size = 0,
                state = 0, is_static = 0, code_size = 6, contract = replicate 20 0,
                halt_reason = 0, storage_slot_count = 0, max_storage_slots = 0\<rparr>,
      stack_base = replicate 1024 (replicate 32 0),
      memory_base = replicate 1048576 0,
      code = [0x60, 0x05, 0x60, 0x03, 0x01, 0x00],
      storage_base = []\<rparr>"

section \<open>Reading a trace\<close>

text \<open>The shared region an event has observed, and the two kinds of event.\<close>

fun observed :: "trace_event \<Rightarrow> ExecutionContext" where
  "observed (TracePre ctx) = ctx"
| "observed (TracePost ctx op_result) = ctx"

definition counting_tracer :: TracerCallbacks where
  "counting_tracer = \<lparr>trace_pre_execution = True, trace_post_execution = True\<rparr>"

fun is_pre :: "trace_event \<Rightarrow> bool" where
  "is_pre (TracePre ctx) = True"
| "is_pre (TracePost ctx op_result) = False"

fun is_post :: "trace_event \<Rightarrow> bool" where
  "is_post (TracePre ctx) = False"
| "is_post (TracePost ctx op_result) = True"

section \<open>Iterations of the loop\<close>

text \<open>
  \<open>iterates tracer has_tracer s s'\<close>: from the region and trace \<open>s\<close> the loop condition
  holds and one pass through the body ends at \<open>s'\<close> without returning, so that the
  condition is tested again. \<open>gas_of\<close> reads the signed \<open>gas_remaining\<close>.
\<close>

definition iterates ::
  "TracerCallbacks option \<Rightarrow> bool \<Rightarrow> ExecutionContext \<times> trace_event list \<Rightarrow>
     ExecutionContext \<times> trace_event list \<Rightarrow> bool" where
  "iterates tracer has_tracer s s' \<longleftrightarrow>
     pc (frame (fst s)) <s code_size (frame (fst s)) \<and> state (frame (fst s)) = 1 \<and>
     loop_body tracer has_tracer (fst s) (snd s) = Some (Continue s')"

definition gas_of :: "ExecutionContext \<times> trace_event list \<Rightarrow> int" where
  "gas_of s = sint (gas_remaining (frame (fst s)))"

text \<open>
  The program JUMPDEST; PUSH1 0; JUMP jumps back to its start for ever. \<open>cycle_inv\<close>
  describes the regions that a run of it passes through at the head of the loop.
\<close>

definition cycle_inv :: "ExecutionContext \<Rightarrow> bool" where
  "cycle_inv ctx \<longleftrightarrow>
     code ctx = [0x5b, 0x60, 0x00, 0x56] \<and> code_size (frame ctx) = 4 \<and>
     state (frame ctx) = 1 \<and> 1 \<le> length (stack_base ctx) \<and>
     (pc (frame ctx) = 0 \<and> stack_size (frame ctx) = 0 \<or>
      pc (frame ctx) = 1 \<and> stack_size (frame ctx) = 0 \<or>
      pc (frame ctx) = 3 \<and> stack_size (frame ctx) = 1 \<and> stack_base ctx ! 0 = replicate 32 0)"

definition cycle_ctx :: ExecutionContext where
  "cycle_ctx =
     \<lparr>frame = \<lparr>pc = 0, gas_remaining = 100, gas_refund = 0, stack_size = 0, memory_size = 0,
                state = 0, is_static = 0, code_size = 4, contract = replicate 20 0,
                halt_reason = 0, storage_slot_count = 0, max_storage_slots = 0\<rparr>,
      stack_base = replicate 1024 (replicate 32 0),
      memory_base = replicate 1048576 0,
      code = [0x5b, 0x60, 0x00, 0x56],
      storage_base = []\<rparr>"

section \<open>Counting tracer calls\<close>

text \<open>
  \<open>dispatch ctx\<close> is what the loop body does between the two tracer calls: it fetches
  the opcode at \<open>pc\<close> and runs its handler. The opcode dispatched at \<open>ctx\<close> is
  \<open>handler_ok\<close> when its handler signals no error, and \<open>charged\<close> when moreover its cost
  does not exceed the gas left. \<open>pre_contexts\<close> lists the regions that the
  \<open>TracePre\<close> events of a trace have observed.
\<close>

definition dispatch :: "ExecutionContext \<Rightarrow> (OpResult \<times> ExecutionContext) option" where
  "dispatch ctx =
     do {
       opcode \<leftarrow> load_byte (code ctx) (sint (pc (frame ctx)));
       (JUMP_TABLE ! unat opcode) ctx
     }"

definition handler_ok :: "ExecutionContext \<Rightarrow> bool" where
  "handler_ok ctx =
     (case dispatch ctx of None \<Rightarrow> False | Some (r, ctx1) \<Rightarrow> 0 \<le> pc_increment r)"

definition charged :: "ExecutionContext \<Rightarrow> bool" where
  "charged ctx =
     (case dispatch ctx of
        None \<Rightarrow> False
      | Some (r, ctx1) \<Rightarrow> 0 \<le> pc_increment r \<and> gas_cost r \<le> sint (gas_remaining (frame ctx1)))"

definition pre_contexts :: "trace_event list \<Rightarrow> ExecutionContext list" where
  "pre_contexts tr = map observed (filter is_pre tr)"

definition counts_balanced :: "trace_event list \<Rightarrow> bool" where
  "counts_balanced tr \<longleftrightarrow>
     length (filter is_post tr) = length (filter charged (pre_contexts tr)) \<and>
     length (filter is_pre tr) = length (filter is_post tr)"

definition counts_final :: "trace_event list \<Rightarrow> bool" where
  "counts_final tr \<longleftrightarrow>
     length (filter is_post tr) = length (filter charged (pre_contexts tr)) \<and>
     length (filter is_post tr) \<le> length (filter is_pre tr) \<and>
     length (filter is_pre tr) \<le> length (filter is_post tr) + 1"

text \<open>
  \<open>dispatched\<close> follows the \<^verbatim>\<open>while\<close> loop as \<open>execute_loop\<close> does and records, in order,
  the region at every passage through \<^verbatim>\<open>JUMP_TABLE[opcode](&ctx)\<close>: an iteration reaches
  that call exactly when it has passed the test \<^verbatim>\<open>gas_remaining < 3\<close>. The record is kept
  by the loop itself, whether or not a tracer is attached, and does not read the trace.
  \<open>dispatched_opcodes\<close> is the record of a whole run of \<^verbatim>\<open>execute_message\<close>.
\<close>

function dispatched ::
  "TracerCallbacks option \<Rightarrow> bool \<Rightarrow> ExecutionContext \<Rightarrow> trace_event list \<Rightarrow>
     ExecutionContext list option" where
  "dispatched tracer has_tracer ctx tr =
     (if pc (frame ctx) <s code_size (frame ctx) \<and> state (frame ctx) = 1 then
        (if gas_remaining (frame ctx) <s 3 then Some []
         else
           case loop_body tracer has_tracer ctx tr of
             None \<Rightarrow> None
           | Some (Return res) \<Rightarrow> Some [ctx]
           | Some (Continue (ctx', tr')) \<Rightarrow>
               map_option (Cons ctx) (dispatched tracer has_tracer ctx' tr'))
      else Some [])"
  by pat_completeness auto
termination
proof (relation "measure (\<lambda>(tracer, has_tracer, ctx, tr).
          if state (frame ctx) = 1 then nat (sint (gas_remaining (frame ctx))) + 1 else 0)")
  show "wf (measure (\<lambda>(tracer, has_tracer, ctx, tr).
          if state (frame ctx) = 1 then nat (sint (gas_remaining (frame ctx))) + 1 else 0))"
    by simp
next
  fix tracer has_tracer ctx tr x2 x1 ctx' tr'
  assume c: "pc (frame ctx) <s code_size (frame ctx) \<and> state (frame ctx) = 1"
    and b: "loop_body tracer has_tracer ctx tr = Some x2" "x2 = Continue x1" "(ctx', tr') = x1"
  from b have body: "loop_body tracer has_tracer ctx tr = Some (Continue (ctx', tr'))"
    by simp
  show "((tracer, has_tracer, ctx', tr'), (tracer, has_tracer, ctx, tr))
      \<in> measure (\<lambda>(tracer, has_tracer, ctx, tr).
          if state (frame ctx) = 1 then nat (sint (gas_remaining (frame ctx))) + 1 else 0)"
    using c loop_body_Continue(1) [OF body] loop_body_Continue(3) [OF body]
    by auto
qed

declare dispatched.simps [simp del]

definition dispatched_opcodes ::
  "ExecutionContext \<Rightarrow> TracerCallbacks option \<Rightarrow> ExecutionContext list option" where
  "dispatched_opcodes ctx0 tracer =
     (let ctx = ctx0\<lparr>frame := (frame ctx0)\<lparr>state := 1\<rparr>\<rparr>;
          has_tracer = (case tracer of None \<Rightarrow> False | Some t \<Rightarrow> trace_pre_execution t)
      in dispatched tracer has_tracer ctx [])"

definition underflow_ctx :: ExecutionContext where
  "underflow_ctx =
     \<lparr>frame = \<lparr>pc = 0, gas_remaining = 100, gas_refund = 0, stack_size = 0, memory_size = 0,
                state = 0, is_static = 0, code_size = 1, contract = replicate 20 0,
                halt_reason = 0, storage_slot_count = 0, max_storage_slots = 0\<rparr>,
      stack_base = replicate 1024 (replicate 32 0),
      memory_base = replicate 1048576 0,
      code = [0x01],
      storage_base = []\<rparr>"

section \<open>Opcodes that push\<close>

text \<open>
  The opcodes whose handler allocates a stack slot: PC, GAS, PUSH0, PUSH1 to PUSH32 and
  DUP1 to DUP16.
\<close>

definition pushes :: "byte \<Rightarrow> bool" where
  "pushes opcode \<longleftrightarrow>
     opcode = 0x58 \<or> opcode = 0x5a \<or> opcode = 0x5f \<or> (0x60 \<le> opcode \<and> opcode \<le> 0x8f)"

definition full_stack_ctx :: ExecutionContext where
  "full_stack_ctx =
     \<lparr>frame = \<lparr>pc = 0, gas_remaining = 100, gas_refund = 0, stack_size = 1024, memory_size = 0,
                state = 0, is_static = 0, code_size = 1, contract = replicate 20 0,
                halt_reason = 0, storage_slot_count = 0, max_storage_slots = 0\<rparr>,
      stack_base = replicate 1024 (replicate 32 0),
      memory_base = replicate 1048576 0,
      code = [0x5f],
      storage_base = []\<rparr>"

section \<open>Memory accesses\<close>

text \<open>
  The number of bytes that MLOAD (0x51), MSTORE (0x52) and MSTORE8 (0x53) ask
  \<open>ensure_memory\<close> for, and a program that reads one word at offset 1 MiB.
\<close>

definition access_size :: "byte \<Rightarrow> 32 word" where
  "access_size opcode = (if opcode = 0x53 then 1 else 32)"

definition mload_ceiling_ctx :: ExecutionContext where
  "mload_ceiling_ctx =
     \<lparr>frame = \<lparr>pc = 0, gas_remaining = 100, gas_refund = 0, stack_size = 0, memory_size = 0,
                state = 0, is_static = 0, code_size = 5, contract = replicate 20 0,
                halt_reason = 0, storage_slot_count = 0, max_storage_slots = 0\<rparr>,
      stack_base = replicate 1024 (replicate 32 0),
      memory_base = replicate 1048576 0,
      code = [0x62, 0x10, 0x00, 0x00, 0x51],
      storage_base = []\<rparr>"

definition mload_pending_ctx :: ExecutionContext where
  "mload_pending_ctx =
     mload_ceiling_ctx
       \<lparr>frame := (frame mload_ceiling_ctx)\<lparr>state := 1, stack_size := 1, gas_remaining := 97, pc := 4\<rparr>,
        stack_base := (stack_base mload_ceiling_ctx)[0 := replicate 29 0 @ [0x10, 0x00, 0x00]]\<rparr>"

section \<open>Storage programs\<close>

text \<open>
  The program PUSH1 0x2A; PUSH1 0x07; SSTORE; PUSH1 0x07; SLOAD; STOP on an empty storage
  plane with room for 100 entries, once with the opcodes SSTORE (0x55) and SLOAD (0x54) and
  once with the bytes 0x45 and 0x44, the table entries that hold \<open>op_sstore\<close> and
  \<open>op_sload\<close>. Then the one-byte program SSTORE with key 7 on top of the stack and the
  new value 42 below it, on a storage plane that holds a cold entry for key 7 with value
  and original zero, in a frame that is not static and in a static one.
\<close>

definition round_trip_ctx :: ExecutionContext where
  "round_trip_ctx =
     \<lparr>frame = \<lparr>pc = 0, gas_remaining = 50000, gas_refund = 0, stack_size = 0, memory_size = 0,
                state = 0, is_static = 0, code_size = 9, contract = replicate 20 0xAA,
                halt_reason = 0, storage_slot_count = 0, max_storage_slots = 100\<rparr>,
      stack_base = replicate 1024 (replicate 32 0),
      memory_base = replicate 1048576 0,
      code = [0x60, 0x2A, 0x60, 0x07, 0x55, 0x60, 0x07, 0x54, 0x00],
      storage_base = replicate 100
        \<lparr>address = replicate 20 0, key = replicate 32 0, val = replicate 32 0,
           original = replicate 32 0, is_warm = 0\<rparr>\<rparr>"

definition round_trip_dispatched_ctx :: ExecutionContext where
  "round_trip_dispatched_ctx =
     round_trip_ctx\<lparr>code := [0x60, 0x2A, 0x60, 0x07, 0x45, 0x60, 0x07, 0x44, 0x00]\<rparr>"

definition sstore_present_ctx :: ExecutionContext where
  "sstore_present_ctx =
     \<lparr>frame = \<lparr>pc = 0, gas_remaining = 50000, gas_refund = 0, stack_size = 2, memory_size = 0,
                state = 0, is_static = 0, code_size = 1, contract = replicate 20 0xAA,
                halt_reason = 0, storage_slot_count = 1, max_storage_slots = 100\<rparr>,
      stack_base = (replicate 1024 (replicate 32 0))
        [0 := replicate 31 0 @ [42], 1 := replicate 31 0 @ [7]],
      memory_base = replicate 1048576 0,
      code = [0x55],
      storage_base = (replicate 100
        \<lparr>address = replicate 20 0, key = replicate 32 0, val = replicate 32 0,
           original = replicate 32 0, is_warm = 0\<rparr>)
        [0 := \<lparr>address = replicate 20 0xAA, key = replicate 31 0 @ [7], val = replicate 32 0,
                 original = replicate 32 0, is_warm = 0\<rparr>]\<rparr>"

definition sstore_static_ctx :: ExecutionContext where
  "sstore_static_ctx =
     sstore_present_ctx\<lparr>frame := (frame sstore_present_ctx)\<lparr>is_static := 1\<rparr>\<rparr>"

section \<open>Facts about the 256-bit helpers\<close>

lemma upt_24_32: "[24..<32] = [24, 25, 26, 27, 28, 29, 30, 31]"
  by (simp add: upt_rec)

lemma replicate_32:
  "replicate 32 (x::'a) =
     [x,x,x,x,x,x,x,x,x,x,x,x,x,x,x,x,x,x,x,x,x,x,x,x,x,x,x,x,x,x,x,x]"
  by (simp add: numeral_eq_Suc)

lemma replicate_24:
  "replicate 24 (x::'a) = [x,x,x,x,x,x,x,x,x,x,x,x,x,x,x,x,x,x,x,x,x,x,x,x]"
  by (simp add: numeral_eq_Suc)

lemma list_update_Cons_numeral: "(x # xs)[numeral k := y] = x # xs[pred_numeral k := y]"
  by (simp add: numeral_eq_Suc)

lemma low_byte_mask: "(ucast (v AND 0xFF :: 64 word) :: 8 word) = ucast v"
proof -
  have m: "(0xFF :: 64 word) = mask 8"
    by (simp add: mask_eq_exp_minus_1)
  show ?thesis
    unfolding m by (rule bit_word_eqI) (auto simp: bit_simps)
qed

lemma u64_to_word_bytes:
  "u64_to_word v = replicate 24 0 @
     [ucast (drop_bit 56 v), ucast (drop_bit 48 v), ucast (drop_bit 40 v), ucast (drop_bit 32 v),
      ucast (drop_bit 24 v), ucast (drop_bit 16 v), ucast (drop_bit 8 v), ucast v]"
  unfolding u64_to_word_def upt_24_32 replicate_32 replicate_24
  by (simp add: list_update_Cons_numeral low_byte_mask)

lemma word_to_u64_bytes:
  "word_to_u64 (replicate 24 z @ [b7, b6, b5, b4, b3, b2, b1, b0]) =
     push_bit 56 (ucast b7) OR push_bit 48 (ucast b6) OR push_bit 40 (ucast b5) OR
     push_bit 32 (ucast b4) OR push_bit 24 (ucast b3) OR push_bit 16 (ucast b2) OR
     push_bit 8 (ucast b1) OR ucast b0"
  unfolding word_to_u64_def upt_24_32 replicate_24
  by (simp add: push_bit_or ac_simps)

lemma byte_part:
  "push_bit k (ucast (ucast (drop_bit k (v :: 64 word)) :: 8 word) :: 64 word) =
     v AND push_bit k (mask 8)"
  by (rule bit_word_eqI) (auto simp: bit_simps)

lemma masks_cover:
  "(push_bit 56 (mask 8) OR push_bit 48 (mask 8) OR push_bit 40 (mask 8) OR
    push_bit 32 (mask 8) OR push_bit 24 (mask 8) OR push_bit 16 (mask 8) OR
    push_bit 8 (mask 8) OR mask 8 :: 64 word) = - 1"
  by (simp add: mask_eq_exp_minus_1)

lemma word_to_u64_u64_to_word: "word_to_u64 (u64_to_word v) = v"
proof -
  have "word_to_u64 (u64_to_word v) =
     v AND push_bit 56 (mask 8) OR v AND push_bit 48 (mask 8) OR v AND push_bit 40 (mask 8) OR
     v AND push_bit 32 (mask 8) OR v AND push_bit 24 (mask 8) OR v AND push_bit 16 (mask 8) OR
     v AND push_bit 8 (mask 8) OR v AND mask 8"
    unfolding u64_to_word_bytes word_to_u64_bytes byte_part
    using byte_part [of 0 v] by simp
  also have "\<dots> = v AND (push_bit 56 (mask 8) OR push_bit 48 (mask 8) OR push_bit 40 (mask 8) OR
     push_bit 32 (mask 8) OR push_bit 24 (mask 8) OR push_bit 16 (mask 8) OR
     push_bit 8 (mask 8) OR mask 8)"
    by (simp only: bit.conj_disj_distrib)
  also have "\<dots> = v"
    unfolding masks_cover by simp
  finally show ?thesis .
qed

lemma byte_of_packed:
  fixes b7 b6 b5 b4 b3 b2 b1 b0 :: byte
  defines "X \<equiv> (push_bit 56 (ucast b7) OR push_bit 48 (ucast b6) OR push_bit 40 (ucast b5) OR
     push_bit 32 (ucast b4) OR push_bit 24 (ucast b3) OR push_bit 16 (ucast b2) OR
     push_bit 8 (ucast b1) OR ucast b0 :: 64 word)"
  shows "ucast (drop_bit 56 X) = b7" "ucast (drop_bit 48 X) = b6" "ucast (drop_bit 40 X) = b5"
    "ucast (drop_bit 32 X) = b4" "ucast (drop_bit 24 X) = b3" "ucast (drop_bit 16 X) = b2"
    "ucast (drop_bit 8 X) = b1" "ucast X = b0"
  unfolding X_def
  subgoal by (rule bit_word_eqI) (auto simp: bit_simps dest: bit_imp_le_length)
  subgoal by (rule bit_word_eqI) (auto simp: bit_simps dest: bit_imp_le_length)
  subgoal by (rule bit_word_eqI) (auto simp: bit_simps dest: bit_imp_le_length)
  subgoal by (rule bit_word_eqI) (auto simp: bit_simps dest: bit_imp_le_length)
  subgoal by (rule bit_word_eqI) (auto simp: bit_simps dest: bit_imp_le_length)
  subgoal by (rule bit_word_eqI) (auto simp: bit_simps dest: bit_imp_le_length)
  subgoal by (rule bit_word_eqI) (auto simp: bit_simps dest: bit_imp_le_length)
  subgoal by (rule bit_word_eqI) (auto simp: bit_simps dest: bit_imp_le_length)
  done


lemma last8:
  assumes "length (w :: 'a list) = 32"
  shows "w = take 24 w @ [w ! 24, w ! 25, w ! 26, w ! 27, w ! 28, w ! 29, w ! 30, w ! 31]"
proof -
  have "length (drop 24 w) = 8"
    using assms by simp
  then have "drop 24 w = [drop 24 w ! 0, drop 24 w ! 1, drop 24 w ! 2, drop 24 w ! 3,
      drop 24 w ! 4, drop 24 w ! 5, drop 24 w ! 6, drop 24 w ! 7]"
    by (auto simp: list_eq_iff_nth_eq nth_Cons' numeral_eq_Suc less_Suc_eq)
  then have "drop 24 w = [w ! 24, w ! 25, w ! 26, w ! 27, w ! 28, w ! 29, w ! 30, w ! 31]"
    using assms by simp
  then show ?thesis
    by (metis append_take_drop_id)
qed

lemma u64_to_word_word_to_u64:
  assumes "length w = 32" "take 24 w = replicate 24 0"
  shows "u64_to_word (word_to_u64 w) = w"
proof -
  have w: "w = replicate 24 0 @ [w ! 24, w ! 25, w ! 26, w ! 27, w ! 28, w ! 29, w ! 30, w ! 31]"
    using last8 [OF assms(1)] assms(2) by simp
  show ?thesis
    by (subst (2) w, subst w, simp only: word_to_u64_bytes u64_to_word_bytes byte_of_packed)
qed

section \<open>Running the loop on given programs\<close>

lemmas handler_defs = op_stop_def op_add_def op_mul_def op_sub_def op_div_def op_mod_def op_lt_def
  op_gt_def op_eq_def op_iszero_def op_and_def op_or_def op_xor_def op_not_def op_pop_def
  op_mload_def op_mstore_def op_mstore8_def op_sload_def op_sstore_def op_jump_def op_jumpi_def
  op_pc_def op_gas_def op_jumpdest_def op_push0_def op_push_n_def op_dup_n_def op_swap_n_def
  op_stub_def op_invalid_def PUSH_HANDLER_def DUP_HANDLER_def SWAP_HANDLER_def

lemmas plane_defs = in_stack_plane_def load_word_def store_word_def load_bytes_def store_bytes_def
  load_byte_def stack_top_def stack_alloc_def stack_free_def

lemmas run_simps = loop_body_def word_sless_alt word_sle_eq plane_defs JUMP_TABLE_def handler_defs
  Let_def u64_to_word_bytes word_to_u64_def upt_24_32 nth_append

lemma simple_add_untraced:
  assumes "code ctx0 = [0x60, 0x05, 0x60, 0x03, 0x01, 0x00]"
    and "code_size (frame ctx0) = 6"
    and "pc (frame ctx0) = 0"
    and "stack_size (frame ctx0) = 0"
    and "gas_remaining (frame ctx0) = 1000000"
    and "2 \<le> length (stack_base ctx0)"
  shows "\<exists>ctx'. execute_message ctx0 None = Some (ctx', []) \<and>
     state (frame ctx') = 7 \<and> stack_size (frame ctx') = 1 \<and>
     stack_base ctx' ! 0 = replicate 31 0 @ [8] \<and>
     gas_remaining (frame ctx') = 999991 \<and> pc (frame ctx') = 5"
  using assms
  apply (simp add: execute_message_def)
  apply (subst execute_loop.simps, simp add: run_simps)
  apply (subst execute_loop.simps, simp add: run_simps)
  apply (subst execute_loop.simps, simp add: run_simps)
  apply (subst execute_loop.simps, simp add: run_simps)
  apply (subst execute_loop.simps, simp add: run_simps)
  apply (auto simp: numeral_eq_Suc)
  done

section \<open>The layout invariant along a run\<close>

lemma loop_body_invariant:
  assumes "loop_body tracer has_tracer ctx tr = Some it"
    and "frame_invariant (frame ctx)"
    and "\<forall>e \<in> set tr. frame_invariant (frame (observed e))"
  shows "case it of
           Continue (ctx', tr') \<Rightarrow>
             frame_invariant (frame ctx') \<and> (\<forall>e \<in> set tr'. frame_invariant (frame (observed e)))
         | Return (ctx', tr') \<Rightarrow>
             frame_invariant (frame ctx') \<and> (\<forall>e \<in> set tr'. frame_invariant (frame (observed e)))"
  using assms unfolding loop_body_def call_trace_pre_def call_trace_post_def
  by (auto simp: Let_def handler_effect_def frame_invariant_updates
      split: if_splits Option.bind_splits prod.splits option.splits dest!: JUMP_TABLE_effect)

lemma execute_loop_invariant:
  assumes "execute_loop tracer has_tracer ctx tr = Some (ctx', tr')"
    and "frame_invariant (frame ctx)"
    and "\<forall>e \<in> set tr. frame_invariant (frame (observed e))"
  shows "frame_invariant (frame ctx') \<and> (\<forall>e \<in> set tr'. frame_invariant (frame (observed e)))"
  using assms
proof (induction tracer has_tracer ctx tr rule: execute_loop.induct)
  case (1 tracer has_tracer ctx tr)
  note u = execute_loop.simps [of tracer has_tracer ctx tr]
  show ?case
  proof (cases "pc (frame ctx) <s code_size (frame ctx) \<and> state (frame ctx) = 1")
    case False
    with "1.prems" show ?thesis
      by (auto simp: u frame_invariant_updates split: if_splits)
  next
    case True
    show ?thesis
    proof (cases "loop_body tracer has_tracer ctx tr")
      case None
      with True "1.prems" show ?thesis
        by (auto simp: u)
    next
      case (Some it)
      note inv = loop_body_invariant [OF Some "1.prems"(2,3)]
      show ?thesis
      proof (cases it)
        case (Return res)
        with True Some "1.prems"(1) inv show ?thesis
          by (auto simp: u)
      next
        case (Continue res)
        obtain c t where res: "res = (c, t)"
          by (cases res)
        from True Some Continue res "1.prems"(1)
        have run: "execute_loop tracer has_tracer c t = Some (ctx', tr')"
          by (auto simp: u)
        from inv Continue res
        have "frame_invariant (frame c)" "\<forall>e \<in> set t. frame_invariant (frame (observed e))"
          by auto
        with "1.IH" [OF True Some Continue res [symmetric] run] show ?thesis
          by blast
      qed
    qed
  qed
qed

lemmas trace_defs = call_trace_pre_def call_trace_post_def counting_tracer_def

lemma simple_add_traced:
  assumes "code ctx0 = [0x60, 0x05, 0x60, 0x03, 0x01, 0x00]"
    and "code_size (frame ctx0) = 6"
    and "pc (frame ctx0) = 0"
    and "stack_size (frame ctx0) = 0"
    and "gas_remaining (frame ctx0) = 1000000"
    and "2 \<le> length (stack_base ctx0)"
  shows "\<exists>ctx' tr. execute_message ctx0 (Some counting_tracer) = Some (ctx', tr) \<and>
     length (filter is_pre tr) = 4 \<and> length (filter is_post tr) = 4 \<and>
     tr ! 5 = TracePost (observed (tr ! 5)) (OperationResult 3 0 1)"
  using assms
  apply (simp add: execute_message_def trace_defs)
  apply (subst execute_loop.simps, simp add: run_simps trace_defs)
  apply (subst execute_loop.simps, simp add: run_simps trace_defs)
  apply (subst execute_loop.simps, simp add: run_simps trace_defs)
  apply (subst execute_loop.simps, simp add: run_simps trace_defs)
  apply (subst execute_loop.simps, simp add: run_simps trace_defs)
  apply (auto simp: numeral_eq_Suc)
  done

section \<open>Termination of the loop\<close>

lemma iterates_gas:
  assumes "iterates tracer has_tracer s s'"
  shows "3 \<le> gas_of s" and "gas_of s' \<le> gas_of s"
    and "state (frame (fst s')) = 1 \<Longrightarrow> gas_of s' + 1 \<le> gas_of s"
proof -
  obtain c t where s': "s' = (c, t)"
    by (cases s')
  with assms have b: "loop_body tracer has_tracer (fst s) (snd s) = Some (Continue (c, t))"
    by (simp add: iterates_def)
  show "3 \<le> gas_of s" "gas_of s' \<le> gas_of s"
    using loop_body_Continue(1,2) [OF b] s' by (simp_all add: gas_of_def)
  show "gas_of s' + 1 \<le> gas_of s" if "state (frame (fst s')) = 1"
    using loop_body_Continue(3) [OF b] s' that by (simp add: gas_of_def)
qed

lemma iterates_chain_bound:
  "(iterates tracer has_tracer ^^ n) s s' \<Longrightarrow> 0 < n \<Longrightarrow> int n + 2 \<le> gas_of s"
proof (induction n arbitrary: s)
  case 0
  then show ?case by simp
next
  case (Suc n)
  obtain s1 where first: "iterates tracer has_tracer s s1"
    and rest: "(iterates tracer has_tracer ^^ n) s1 s'"
    using relpowp_Suc_D2 [OF Suc.prems(1)] by blast
  show ?case
  proof (cases n)
    case 0
    with iterates_gas(1) [OF first] show ?thesis by simp
  next
    case (Suc k)
    with rest have "(iterates tracer has_tracer ^^ Suc k) s1 s'"
      by simp
    from relpowp_Suc_D2 [OF this] obtain s2 where "iterates tracer has_tracer s1 s2"
      by blast
    then have "state (frame (fst s1)) = 1"
      by (simp add: iterates_def)
    from iterates_gas(3) [OF first this] Suc.IH [OF rest] Suc show ?thesis
      by simp
  qed
qed

lemma iterates_wf: "wfP (\<lambda>s' s. iterates tracer has_tracer s s')"
proof -
  have "{(s', s). iterates tracer has_tracer s s'} \<subseteq>
      measure (\<lambda>s. if state (frame (fst s)) = 1 then nat (gas_of s) + 1 else 0)"
  proof clarify
    fix c' t' c t
    assume i: "iterates tracer has_tracer (c, t) (c', t')"
    then have "state (frame c) = 1"
      by (simp add: iterates_def)
    with iterates_gas(1) [OF i] iterates_gas(3) [OF i]
    show "((c', t'), (c, t)) \<in>
        measure (\<lambda>s. if state (frame (fst s)) = 1 then nat (gas_of s) + 1 else 0)"
      by auto
  qed
  then have "wf {(s', s). iterates tracer has_tracer s s'}"
    by (rule wf_subset [OF wf_measure])
  then show ?thesis
    by (simp add: wfp_def)
qed


lemma replicate_31_0: "replicate 31 x @ [x] = replicate 32 x"
  by (simp add: numeral_eq_Suc replicate_append_same)

lemma cycle_step:
  assumes "cycle_inv ctx"
  shows "\<exists>it. loop_body None False ctx tr = Some it \<and>
     (case it of
        Return (c, t) \<Rightarrow> state (frame c) = 4 \<and> halt_reason (frame c) = 1
      | Continue (c, t) \<Rightarrow> cycle_inv c)"
  using assms unfolding cycle_inv_def
  apply (elim conjE disjE)
    apply (simp_all add: run_simps)
   apply (auto simp: replicate_31_0)
  done

lemma cycle_loop:
  assumes "cycle_inv ctx"
  shows "\<exists>ctx' tr'. execute_loop None False ctx tr = Some (ctx', tr') \<and>
     state (frame ctx') = 4 \<and> halt_reason (frame ctx') = 1"
  using assms
proof (induction "None :: TracerCallbacks option" False ctx tr rule: execute_loop.induct)
  case (1 ctx tr)
  note u = execute_loop.simps [of None False ctx tr]
  from "1.prems" have c: "pc (frame ctx) <s code_size (frame ctx) \<and> state (frame ctx) = 1"
    by (auto simp: cycle_inv_def word_sless_alt)
  from cycle_step [OF "1.prems", of tr] obtain it
    where b: "loop_body None False ctx tr = Some it"
      and p: "case it of
        Return (c, t) \<Rightarrow> state (frame c) = 4 \<and> halt_reason (frame c) = 1
      | Continue (c, t) \<Rightarrow> cycle_inv c"
    by blast
  show ?case
  proof (cases it)
    case (Return res)
    with b c p show ?thesis
      by (cases res) (auto simp: u)
  next
    case (Continue res)
    obtain c' t' where res: "res = (c', t')"
      by (cases res)
    with p Continue have "cycle_inv c'"
      by simp
    from "1.hyps" [OF c b Continue res [symmetric] this] b c Continue res show ?thesis
      by (auto simp: u)
  qed
qed

section \<open>Tracer calls along a run\<close>

lemma loop_body_traced_cases:
  assumes "loop_body (Some t) True ctx tr = Some it"
    and "trace_pre_execution t" "trace_post_execution t"
  shows "(\<exists>c. it = Return (c, tr)) \<or>
     (\<exists>c. it = Return (c, tr @ [TracePre ctx]) \<and> \<not> charged ctx) \<or>
     (\<exists>c c2 r. it = Continue (c, tr @ [TracePre ctx, TracePost c2 r]) \<and> charged ctx)"
  using assms
  unfolding loop_body_def call_trace_pre_def call_trace_post_def charged_def dispatch_def
  by (auto simp: Let_def split: if_splits Option.bind_splits prod.splits option.splits)

lemma loop_body_counts:
  assumes "loop_body (Some t) True ctx tr = Some it"
    and "trace_pre_execution t" "trace_post_execution t"
    and "counts_balanced tr"
  shows "case it of
           Continue (ctx', tr') \<Rightarrow> counts_balanced tr'
         | Return (ctx', tr') \<Rightarrow> counts_final tr'"
  using loop_body_traced_cases [OF assms(1,2,3)] assms(4)
  by (auto simp: counts_balanced_def counts_final_def pre_contexts_def)

lemma execute_loop_counts:
  assumes "execute_loop (Some t) True ctx tr = Some (ctx', tr')"
    and "trace_pre_execution t" "trace_post_execution t"
    and "counts_balanced tr"
  shows "counts_final tr'"
  using assms
proof (induction "Some t" True ctx tr rule: execute_loop.induct)
  case (1 ctx tr)
  note u = execute_loop.simps [of "Some t" True ctx tr]
  show ?case
  proof (cases "pc (frame ctx) <s code_size (frame ctx) \<and> state (frame ctx) = 1")
    case False
    with "1.prems" show ?thesis
      by (auto simp: u counts_balanced_def counts_final_def split: if_splits)
  next
    case True
    show ?thesis
    proof (cases "loop_body (Some t) True ctx tr")
      case None
      with True "1.prems" show ?thesis
        by (auto simp: u)
    next
      case (Some it)
      note c = loop_body_counts [OF Some "1.prems"(2,3,4)]
      show ?thesis
      proof (cases it)
        case (Return res)
        with True Some "1.prems"(1) c show ?thesis
          by (auto simp: u)
      next
        case (Continue res)
        obtain c1 t1 where res: "res = (c1, t1)"
          by (cases res)
        from True Some Continue res "1.prems"(1)
        have run: "execute_loop (Some t) True c1 t1 = Some (ctx', tr')"
          by (auto simp: u)
        from c Continue res have "counts_balanced t1"
          by simp
        from "1.hyps" [OF True Some Continue res [symmetric] run "1.prems"(2,3) this]
        show ?thesis .
      qed
    qed
  qed
qed

lemma loop_body_traced_log:
  assumes "loop_body (Some t) True ctx tr = Some it"
    and "trace_pre_execution t" "trace_post_execution t"
  shows "(gas_remaining (frame ctx) <s 3 \<and> (\<exists>c. it = Return (c, tr))) \<or>
     (\<not> gas_remaining (frame ctx) <s 3 \<and> (\<exists>c. it = Return (c, tr @ [TracePre ctx]))) \<or>
     (\<not> gas_remaining (frame ctx) <s 3 \<and>
        (\<exists>c c2 r. it = Continue (c, tr @ [TracePre ctx, TracePost c2 r])))"
  using assms
  unfolding loop_body_def call_trace_pre_def call_trace_post_def
  by (auto simp: Let_def split: if_splits Option.bind_splits prod.splits option.splits)

lemma execute_loop_log:
  assumes "execute_loop (Some t) True ctx tr = Some (ctx', tr')"
    and "trace_pre_execution t" "trace_post_execution t"
  shows "\<exists>log. dispatched (Some t) True ctx tr = Some log \<and>
           pre_contexts tr' = pre_contexts tr @ log"
  using assms
proof (induction "Some t" True ctx tr rule: execute_loop.induct)
  case (1 ctx tr)
  note u = execute_loop.simps [of "Some t" True ctx tr]
  note d = dispatched.simps [of "Some t" True ctx tr]
  show ?case
  proof (cases "pc (frame ctx) <s code_size (frame ctx) \<and> state (frame ctx) = 1")
    case False
    then have "dispatched (Some t) True ctx tr = Some []"
      by (auto simp: d)
    moreover from False "1.prems"(1) have "tr' = tr"
      by (auto simp: u)
    ultimately show ?thesis
      by simp
  next
    case True
    show ?thesis
    proof (cases "loop_body (Some t) True ctx tr")
      case None
      with True "1.prems" show ?thesis
        by (auto simp: u)
    next
      case (Some it)
      note c = loop_body_traced_log [OF Some "1.prems"(2,3)]
      show ?thesis
      proof (cases it)
        case (Return res)
        with True Some "1.prems"(1) c show ?thesis
          by (auto simp: u d pre_contexts_def)
      next
        case (Continue res)
        obtain c1 t1 where res: "res = (c1, t1)"
          by (cases res)
        from True Some Continue res "1.prems"(1)
        have run: "execute_loop (Some t) True c1 t1 = Some (ctx', tr')"
          by (auto simp: u)
        from "1.hyps" [OF True Some Continue res [symmetric] run "1.prems"(2,3)]
        obtain log where l: "dispatched (Some t) True c1 t1 = Some log"
          "pre_contexts tr' = pre_contexts t1 @ log"
          by blast
        from c Continue res have g: "\<not> gas_remaining (frame ctx) <s 3"
          and t1: "pre_contexts t1 = pre_contexts tr @ [ctx]"
          by (auto simp: pre_contexts_def)
        from True Some Continue res g l(1)
        have "dispatched (Some t) True ctx tr = Some (ctx # log)"
          by (auto simp: d)
        with l(2) t1 show ?thesis
          by simp
      qed
    qed
  qed
qed

section \<open>Pushing onto a full stack\<close>

lemma push_n_full:
  "stack_size (frame ctx) = 1024 \<Longrightarrow>
     PUSH_HANDLER n ctx = Some (\<lparr>pc_increment = - 1, gas_cost = 0\<rparr>, ctx)"
  by (simp add: PUSH_HANDLER_def op_push_n_def stack_alloc_def word_sle_eq)

lemma dup_n_full:
  "stack_size (frame ctx) = 1024 \<Longrightarrow> n \<le> 1024 \<Longrightarrow>
     DUP_HANDLER n ctx = Some (\<lparr>pc_increment = - 1, gas_cost = 0\<rparr>, ctx)"
  by (simp add: DUP_HANDLER_def op_dup_n_def stack_alloc_def stack_top_def word_sle_eq)

lemma push0_full:
  "stack_size (frame ctx) = 1024 \<Longrightarrow>
     op_push0 ctx = Some (\<lparr>pc_increment = - 1, gas_cost = 0\<rparr>, ctx)"
  "stack_size (frame ctx) = 1024 \<Longrightarrow>
     op_pc ctx = Some (\<lparr>pc_increment = - 1, gas_cost = 0\<rparr>, ctx)"
  "stack_size (frame ctx) = 1024 \<Longrightarrow>
     op_gas ctx = Some (\<lparr>pc_increment = - 1, gas_cost = 0\<rparr>, ctx)"
  by (simp_all add: op_push0_def op_pc_def op_gas_def stack_alloc_def word_sle_eq)

lemma pushing_rows:
  "\<forall>h \<in> set (drop 96 (take 144 JUMP_TABLE)). \<forall>ctx. stack_size (frame ctx) = 1024 \<longrightarrow>
     h ctx = Some (\<lparr>pc_increment = - 1, gas_cost = 0\<rparr>, ctx)"
  by (simp add: JUMP_TABLE_def push_n_full dup_n_full)

lemma pushes_full:
  assumes "pushes opcode" "stack_size (frame ctx) = 1024"
  shows "(JUMP_TABLE ! unat opcode) ctx = Some (\<lparr>pc_increment = - 1, gas_cost = 0\<rparr>, ctx)"
proof -
  consider "opcode = 0x58" | "opcode = 0x5a" | "opcode = 0x5f" | "0x60 \<le> opcode \<and> opcode \<le> 0x8f"
    using assms(1) by (auto simp: pushes_def)
  then show ?thesis
  proof cases
    case 1
    then show ?thesis
      by (simp add: JUMP_TABLE_def push0_full assms(2))
  next
    case 2
    then show ?thesis
      by (simp add: JUMP_TABLE_def push0_full assms(2))
  next
    case 3
    then show ?thesis
      by (simp add: JUMP_TABLE_def push0_full assms(2))
  next
    case 4
    then have r: "96 \<le> unat opcode" "unat opcode < 144"
      by (simp_all add: word_le_nat_alt)
    have "JUMP_TABLE ! unat opcode = drop 96 (take 144 JUMP_TABLE) ! (unat opcode - 96)"
      using r by (simp add: JUMP_TABLE_length)
    moreover have "unat opcode - 96 < length (drop 96 (take 144 JUMP_TABLE))"
      using r by (simp add: JUMP_TABLE_length)
    ultimately have "JUMP_TABLE ! unat opcode \<in> set (drop 96 (take 144 JUMP_TABLE))"
      by (metis nth_mem)
    with pushing_rows assms(2) show ?thesis
      by blast
  qed
qed

section \<open>Growing memory past the ceiling\<close>

lemma ensure_memory_over_ceiling:
  fixes offset sz :: "32 word"
  assumes "sz \<noteq> 0"
    and "0 \<le> sint (memory_size (frame ctx))"
    and "sint (memory_size (frame ctx)) < uint offset + uint sz"
    and "1048576 < uint offset + uint sz"
    and "uint offset + uint sz \<le> 4294967264"
  shows "ensure_memory ctx offset sz = Some (False, ctx)"
proof -
  define required where "required = (ucast offset :: 64 word) + ucast sz"
  have o: "uint offset < 2 ^ 32" "uint sz < 2 ^ 32"
    using uint_bounded [of offset] uint_bounded [of sz] by simp_all
  have r: "uint required = uint offset + uint sz"
    using o unfolding required_def
    by (simp add: uint_word_ariths unsigned_ucast_eq take_bit_eq_mod)
  have b: "sint (memory_size (frame ctx)) < 18446744073709551616"
    using sint_lt [of "memory_size (frame ctx)"] by simp
  have m: "uint (scast (memory_size (frame ctx)) :: 64 word) = sint (memory_size (frame ctx))"
    unfolding scast_eq uint_word_of_int_eq take_bit_eq_mod
    using assms(2) b by (simp add: mod_pos_pos_trivial)
  have lt: "(scast (memory_size (frame ctx)) :: 64 word) < required"
    using assms(3) r m by (simp add: word_less_def)
  define X where "X = (uint offset + uint sz + 31) div 32 * 32"
  have d: "uint offset + uint sz \<le> X" "X \<le> uint offset + uint sz + 31"
    unfolding X_def by presburger+
  have x0: "0 \<le> uint offset + uint sz"
    by simp
  have Xb: "0 \<le> X" "X < 4294967296"
    using d assms(5) x0 by linarith+
  have X64: "X mod 18446744073709551616 = X" and X32: "X mod 4294967296 = X"
    using Xb by (simp_all add: mod_pos_pos_trivial)
  have Y64: "(uint offset + uint sz + 31) mod 18446744073709551616 = uint offset + uint sz + 31"
    using x0 assms(5) by (simp add: mod_pos_pos_trivial)
  have q: "uint ((required + 31) div 32 * 32) = X"
    using r X64 Y64 by (simp add: uint_word_ariths uint_div take_bit_eq_mod X_def)
  have n: "uint (ucast ((required + 31) div 32 * 32) :: 32 word) = X"
    using q X32 by (simp add: unsigned_ucast_eq take_bit_eq_mod)
  have big: "(1024 * 1024 :: 32 word) < ucast ((required + 31) div 32 * 32)"
    using n assms(4) d by (simp add: word_less_def)
  show ?thesis
    using assms(1) lt big
    by (simp add: ensure_memory_def Let_def required_def [symmetric])
qed

section \<open>The storage handlers and their table entries\<close>

text \<open>
  \<open>op_sload\<close> and \<open>op_sstore\<close> stand in the row of entries 0x40 to 0x47 of the table, at
  0x44 and 0x45; the entries 0x54 and 0x55 of the opcodes SLOAD and SSTORE hold
  \<open>op_stub\<close>.
\<close>

lemma table_entries:
  "JUMP_TABLE ! 0 = op_stop"
  "JUMP_TABLE ! 96 = PUSH_HANDLER 1"
  "JUMP_TABLE ! 68 = op_sload"
  "JUMP_TABLE ! 69 = op_sstore"
  "JUMP_TABLE ! 84 = op_stub"
  "JUMP_TABLE ! 85 = op_stub"
  by (simp_all add: JUMP_TABLE_def)

lemmas step_simps = loop_body_def word_sless_alt word_sle_eq plane_defs handler_defs
  Let_def u64_to_word_bytes word_to_u64_def upt_24_32 nth_append table_entries

lemmas storage_simps = storage_find_def storage_find_from.simps storage_add_def

lemma storage_round_trip_untraced:
  assumes "JUMP_TABLE ! unat sstore_op = op_sstore"
    and "JUMP_TABLE ! unat sload_op = op_sload"
    and "code ctx0 = [0x60, 0x2A, 0x60, 0x07, sstore_op, 0x60, 0x07, sload_op, 0x00]"
    and "code_size (frame ctx0) = 9"
    and "pc (frame ctx0) = 0"
    and "stack_size (frame ctx0) = 0"
    and "gas_remaining (frame ctx0) = 50000"
    and "is_static (frame ctx0) = 0"
    and "storage_slot_count (frame ctx0) = 0"
    and "0 < max_storage_slots (frame ctx0)"
    and "1 \<le> length (storage_base ctx0)"
    and "length (contract (frame ctx0)) = 20"
    and "2 \<le> length (stack_base ctx0)"
  shows "\<exists>ctx'. execute_message ctx0 None = Some (ctx', []) \<and>
     state (frame ctx') = 7 \<and>
     storage_slot_count (frame ctx') = 1 \<and>
     storage_base ctx' = (storage_base ctx0)
       [0 := \<lparr>address = contract (frame ctx0), key = replicate 31 0 @ [7],
               val = replicate 31 0 @ [42], original = replicate 31 0 @ [42], is_warm = 1\<rparr>] \<and>
     stack_size (frame ctx') = 1 \<and>
     stack_base ctx' ! 0 = replicate 31 0 @ [42] \<and>
     gas_remaining (frame ctx') = 29891"
proof -
  have m: "max_storage_slots (frame ctx0) \<noteq> 0"
    using assms(10) by auto
  have s: "storage_base ctx0 \<noteq> []" "stack_base ctx0 \<noteq> []"
    using assms(11,13) by auto
  show ?thesis
    using assms(1-9,11-13) m s
    apply (simp add: execute_message_def)
    apply (subst execute_loop.simps, simp add: step_simps)
    apply (subst execute_loop.simps, simp add: step_simps)
    apply (subst execute_loop.simps, simp add: step_simps storage_simps)
    apply (subst execute_loop.simps, simp add: step_simps)
    apply (subst execute_loop.simps, simp add: step_simps storage_simps)
    apply (subst execute_loop.simps, simp add: step_simps)
    apply (subst execute_loop.simps, simp add: step_simps)
    done
qed


lemma storage_find_from_Some:
  "storage_find_from entries n addr k j = Some (Some i) \<Longrightarrow>
     j \<le> i \<and> i < n \<and> i < length entries \<and>
     take 20 (address (entries ! i)) = take 20 addr \<and> take 32 (key (entries ! i)) = take 32 k"
proof (induction entries n addr k j rule: storage_find_from.induct)
  case (1 entries n addr k j)
  from "1.prems" show ?case
    by (subst (asm) storage_find_from.simps) (auto split: if_splits dest!: "1.IH")
qed

lemma storage_find_Some:
  "storage_find entries n addr k = Some (Some i) \<Longrightarrow>
     i < unat n \<and> i < length entries \<and>
     take 20 (address (entries ! i)) = take 20 addr \<and> take 32 (key (entries ! i)) = take 32 k"
  unfolding storage_find_def by (auto dest!: storage_find_from_Some)

lemma op_sstore_static:
  "is_static (frame ctx) \<noteq> 0 \<Longrightarrow>
     op_sstore ctx =
       Some (\<lparr>pc_increment = - 1, gas_cost = 0\<rparr>,
             ctx\<lparr>frame := (frame ctx)\<lparr>state := 4, halt_reason := 6\<rparr>\<rparr>)"
  by (simp add: op_sstore_def)

lemma op_sstore_present_entry:
  assumes "is_static (frame ctx) = 0"
    and "stack_top ctx 0 = Some key_word" and "stack_top ctx 1 = Some value_word"
    and "load_word ctx key_word = Some k" and "load_word ctx value_word = Some v"
    and "storage_find (storage_base ctx) (storage_slot_count (frame ctx)) (contract (frame ctx)) k =
           Some (Some i)"
    and "e = storage_base ctx ! i"
  shows "\<exists>ctx'. op_sstore ctx =
       Some (\<lparr>pc_increment = 1,
               gas_cost = (if \<not> is_zero v \<and> is_zero (val e) \<and> is_zero (original e) then 20000
                           else if is_warm e \<noteq> 0 then 100 else 2100)\<rparr>, ctx') \<and>
     gas_refund (frame ctx') =
       (if is_zero v \<and> \<not> is_zero (val e) then gas_refund (frame ctx) + 4800
        else gas_refund (frame ctx)) \<and>
     val (storage_base ctx' ! i) = v \<and> is_warm (storage_base ctx' ! i) = 1"
proof -
  have i: "i < length (storage_base ctx)"
    using storage_find_Some [OF assms(6)] by simp
  show ?thesis
    using assms i by (simp add: op_sstore_def Let_def stack_free_def)
qed

lemma is_zero_iff: "is_zero w \<longleftrightarrow> (\<forall>i<32. w ! i = 0)"
  by (auto simp: is_zero_def list_all_iff)

lemma is_zero_replicate: "is_zero (replicate 32 0)"
  by (simp add: is_zero_iff)

lemma is_zero_low_byte: "is_zero (replicate 31 0 @ [x]) \<longleftrightarrow> x = 0"
  by (auto simp: is_zero_iff nth_append)

lemma sstore_handler_on_present_entry:
  "\<exists>ctx'. op_sstore (sstore_present_ctx\<lparr>frame := (frame sstore_present_ctx)\<lparr>state := 1\<rparr>\<rparr>) =
       Some (\<lparr>pc_increment = 1, gas_cost = 20000\<rparr>, ctx') \<and>
     val (storage_base ctx' ! 0) = replicate 31 0 @ [42] \<and> is_warm (storage_base ctx' ! 0) = 1"
  by (simp add: sstore_present_ctx_def op_sstore_def plane_defs storage_simps Let_def
      is_zero_replicate is_zero_low_byte)

lemma round_trip_dispatched_gas:
  "\<exists>ctx' tr. execute_message round_trip_dispatched_ctx None = Some (ctx', tr) \<and>
     gas_remaining (frame ctx') = 29891"
proof -
  have "\<exists>ctx'. execute_message round_trip_dispatched_ctx None = Some (ctx', []) \<and>
     state (frame ctx') = 7 \<and>
     storage_slot_count (frame ctx') = 1 \<and>
     storage_base ctx' = (storage_base round_trip_dispatched_ctx)
       [0 := \<lparr>address = contract (frame round_trip_dispatched_ctx), key = replicate 31 0 @ [7],
               val = replicate 31 0 @ [42], original = replicate 31 0 @ [42], is_warm = 1\<rparr>] \<and>
     stack_size (frame ctx') = 1 \<and>
     stack_base ctx' ! 0 = replicate 31 0 @ [42] \<and>
     gas_remaining (frame ctx') = 29891"
    by (rule storage_round_trip_untraced [of "0x45" "0x44"])
       (simp_all add: round_trip_dispatched_ctx_def round_trip_ctx_def table_entries)
  then show ?thesis
    by blast
qed

section \<open>Verified properties\<close>

text \<open>
  Claim C10. For every 64-bit value \<open>v\<close>, \<open>word_to_u64 (u64_to_word v) = v\<close>, and
  \<open>u64_to_word v\<close> is a 32-byte word whose first 24 bytes are zero; and for every 32-byte
  word \<open>w\<close> whose first 24 bytes are zero, \<open>u64_to_word (word_to_u64 w) = w\<close>.
\<close>

theorem word_u64_round_trip:
  "word_to_u64 (u64_to_word v) = v \<and>
   length (u64_to_word v) = 32 \<and> take 24 (u64_to_word v) = replicate 24 0 \<and>
   (\<forall>w. length w = 32 \<and> take 24 w = replicate 24 0 \<longrightarrow> u64_to_word (word_to_u64 w) = w)"
  by (simp add: word_to_u64_u64_to_word u64_to_word_word_to_u64) (simp add: u64_to_word_bytes)

theorem word_u64_round_trip_witness:
  "word_to_u64 (u64_to_word 0x0102030405060708) = 0x0102030405060708 \<and>
   u64_to_word 0x0102030405060708 = replicate 24 0 @ [1, 2, 3, 4, 5, 6, 7, 8] \<and>
   u64_to_word (word_to_u64 (replicate 24 0 @ [1, 2, 3, 4, 5, 6, 7, 8])) =
     replicate 24 0 @ [1, 2, 3, 4, 5, 6, 7, 8]"
  using word_u64_round_trip [of "0x0102030405060708"]
  by (simp add: u64_to_word_bytes)


text \<open>
  Claim C2. On every frame whose code plane is \<open>60 05 60 03 01 00\<close> (PUSH1 5, PUSH1 3,
  ADD, STOP) with \<open>pc = 0\<close>, an empty stack and \<open>gas_remaining = 1000000\<close>,
  \<open>execute_message\<close> returns with \<open>state = 7\<close> (COMPLETED_SUCCESS), \<open>stack_size = 1\<close>, the
  top-of-stack word equal to 8, \<open>gas_remaining = 999991\<close> and \<open>pc = 5\<close>. The stack plane
  only has to hold the two slots the program uses.
\<close>

theorem simple_add_scenario:
  assumes "code ctx0 = [0x60, 0x05, 0x60, 0x03, 0x01, 0x00]"
    and "code_size (frame ctx0) = 6"
    and "pc (frame ctx0) = 0"
    and "stack_size (frame ctx0) = 0"
    and "gas_remaining (frame ctx0) = 1000000"
    and "2 \<le> length (stack_base ctx0)"
    and "tracer_ok tracer"
  shows "\<exists>ctx' tr. execute_message ctx0 tracer = Some (ctx', tr) \<and>
     state (frame ctx') = 7 \<and> stack_size (frame ctx') = 1 \<and>
     stack_base ctx' ! 0 = replicate 31 0 @ [8] \<and>
     gas_remaining (frame ctx') = 999991 \<and> pc (frame ctx') = 5"
proof -
  obtain ctx' where r: "execute_message ctx0 None = Some (ctx', [])"
    and p: "state (frame ctx') = 7" "stack_size (frame ctx') = 1"
      "stack_base ctx' ! 0 = replicate 31 0 @ [8]"
      "gas_remaining (frame ctx') = 999991" "pc (frame ctx') = 5"
    using simple_add_untraced [OF assms(1-6)] by blast
  from execute_message_erase [OF assms(7), of ctx0] r
  obtain tr where "execute_message ctx0 tracer = Some (ctx', tr)"
    by (cases "execute_message ctx0 tracer") auto
  with p show ?thesis
    by blast
qed

theorem simple_add_scenario_witness:
  "\<exists>ctx' tr. execute_message simple_add_ctx None = Some (ctx', tr) \<and>
     state (frame ctx') = 7 \<and> stack_size (frame ctx') = 1 \<and>
     stack_base ctx' ! 0 = replicate 31 0 @ [8] \<and>
     gas_remaining (frame ctx') = 999991 \<and> pc (frame ctx') = 5"
  by (rule simple_add_scenario) (simp_all add: simple_add_ctx_def tracer_ok_def)



text \<open>
  Claim C1. Every handler of the table keeps the layout invariant (\<open>stack_size\<close> between
  0 and 1024, \<open>memory_size\<close> a multiple of 32); and when the initial control block
  satisfies it, so does the control block at every call of a tracer callback during
  \<open>execute_message\<close> and on return.
\<close>

theorem layout_invariant_preserved:
  "(\<forall>h \<in> set JUMP_TABLE. \<forall>ctx r ctx1.
      frame_invariant (frame ctx) \<and> h ctx = Some (r, ctx1) \<longrightarrow> frame_invariant (frame ctx1)) \<and>
   (frame_invariant (frame ctx0) \<and> execute_message ctx0 tracer = Some (ctx', tr) \<longrightarrow>
      frame_invariant (frame ctx') \<and> (\<forall>e \<in> set tr. frame_invariant (frame (observed e))))"
proof (intro conjI ballI allI impI)
  fix h ctx r ctx1
  assume "h \<in> set JUMP_TABLE" "frame_invariant (frame ctx) \<and> h ctx = Some (r, ctx1)"
  with JUMP_TABLE_effect_all show "frame_invariant (frame ctx1)"
    unfolding handler_effect_def by blast
next
  assume a: "frame_invariant (frame ctx0) \<and> execute_message ctx0 tracer = Some (ctx', tr)"
  then have "execute_loop tracer (has_tracer_of tracer)
      (ctx0\<lparr>frame := (frame ctx0)\<lparr>state := 1\<rparr>\<rparr>) [] = Some (ctx', tr)"
    by (simp add: execute_message_loop)
  from execute_loop_invariant [OF this] a
  have r: "frame_invariant (frame ctx') \<and> (\<forall>e \<in> set tr. frame_invariant (frame (observed e)))"
    by (simp add: frame_invariant_updates)
  from r show "frame_invariant (frame ctx')" ..
  fix e assume "e \<in> set tr"
  with r show "frame_invariant (frame (observed e))"
    by blast
qed


theorem layout_invariant_preserved_witness:
  "frame_invariant (frame simple_add_ctx) \<and>
   (\<exists>ctx' tr. execute_message simple_add_ctx (Some counting_tracer) = Some (ctx', tr) \<and>
      length (filter is_pre tr) = 4 \<and> frame_invariant (frame ctx') \<and>
      list_all (\<lambda>e. frame_invariant (frame (observed e))) tr) \<and>
   op_stop \<in> set JUMP_TABLE \<and>
   (\<exists>r ctx1. op_stop simple_add_ctx = Some (r, ctx1) \<and> frame_invariant (frame ctx1))"
proof -
  have i: "frame_invariant (frame simple_add_ctx)"
    by (simp add: frame_invariant_def simple_add_ctx_def)
  obtain ctx' tr where r: "execute_message simple_add_ctx (Some counting_tracer) = Some (ctx', tr)"
    and n: "length (filter is_pre tr) = 4"
    using simple_add_traced [of simple_add_ctx] by (auto simp: simple_add_ctx_def)
  have t: "op_stop \<in> set JUMP_TABLE"
    by (simp add: JUMP_TABLE_def)
  have s: "op_stop simple_add_ctx =
      Some (\<lparr>pc_increment = 0, gas_cost = 0\<rparr>,
            simple_add_ctx\<lparr>frame := (frame simple_add_ctx)\<lparr>state := 7\<rparr>\<rparr>)"
    by (simp add: op_stop_def)
  note inst = layout_invariant_preserved [of simple_add_ctx "Some counting_tracer" ctx' tr]
  from inst i r have "frame_invariant (frame ctx')"
    "list_all (\<lambda>e. frame_invariant (frame (observed e))) tr"
    by (simp_all add: list_all_iff)
  moreover from inst t s i
  have "frame_invariant (frame (simple_add_ctx\<lparr>frame := (frame simple_add_ctx)\<lparr>state := 7\<rparr>\<rparr>))"
    by blast
  ultimately show ?thesis
    using i r n t s by blast
qed

text \<open>
  Claim C9. The loop of \<open>execute_message\<close> ends after finitely many iterations from every
  control block: the iteration relation is well-founded, and a sequence of \<open>n\<close> iterations
  needs \<open>n \<le> gas_remaining\<close>. Every iteration requires \<open>gas_remaining \<ge> 3\<close>, and one that
  leaves the frame executing consumes at least 1 gas. In particular the program
  JUMPDEST; PUSH1 0; JUMP, which jumps in a cycle for ever, halts with
  \<open>state = 4\<close> (EXCEPTIONAL_HALT) and \<open>halt_reason = 1\<close> (INSUFFICIENT_GAS), whatever gas it
  is given.
\<close>

theorem execute_message_terminates:
  "wfP (\<lambda>s' s. iterates tracer has_tracer s s') \<and>
   ((iterates tracer has_tracer ^^ n) s s' \<longrightarrow> n \<le> nat (gas_of s)) \<and>
   (iterates tracer has_tracer s s' \<longrightarrow>
      3 \<le> gas_of s \<and> (state (frame (fst s')) = 1 \<longrightarrow> gas_of s' + 1 \<le> gas_of s)) \<and>
   (tracer_ok tracer \<and> code ctx0 = [0x5b, 0x60, 0x00, 0x56] \<and> code_size (frame ctx0) = 4 \<and>
    pc (frame ctx0) = 0 \<and> stack_size (frame ctx0) = 0 \<and> 1 \<le> length (stack_base ctx0) \<longrightarrow>
      (\<exists>ctx' tr. execute_message ctx0 tracer = Some (ctx', tr) \<and>
         state (frame ctx') = 4 \<and> halt_reason (frame ctx') = 1))"
proof (intro conjI impI)
  show "wfP (\<lambda>s' s. iterates tracer has_tracer s s')"
    by (rule iterates_wf)
  show "n \<le> nat (gas_of s)" if "(iterates tracer has_tracer ^^ n) s s'"
    using iterates_chain_bound [OF that] by (cases "n = 0") auto
  show "3 \<le> gas_of s" if "iterates tracer has_tracer s s'"
    using iterates_gas(1) [OF that] .
  show "gas_of s' + 1 \<le> gas_of s"
    if "iterates tracer has_tracer s s'" "state (frame (fst s')) = 1"
    using iterates_gas(3) [OF that] .
  assume a: "tracer_ok tracer \<and> code ctx0 = [0x5b, 0x60, 0x00, 0x56] \<and>
    code_size (frame ctx0) = 4 \<and> pc (frame ctx0) = 0 \<and> stack_size (frame ctx0) = 0 \<and>
    1 \<le> length (stack_base ctx0)"
  then have "cycle_inv (ctx0\<lparr>frame := (frame ctx0)\<lparr>state := 1\<rparr>\<rparr>)"
    by (simp add: cycle_inv_def)
  from cycle_loop [OF this, of "[]"] obtain ctx' tr0
    where r: "execute_message ctx0 None = Some (ctx', tr0)"
      and p: "state (frame ctx') = 4" "halt_reason (frame ctx') = 1"
    by (auto simp: execute_message_loop has_tracer_of_def)
  from a execute_message_erase [of tracer ctx0] r
  obtain tr where "execute_message ctx0 tracer = Some (ctx', tr)"
    by (cases "execute_message ctx0 tracer") auto
  with p show "\<exists>ctx' tr. execute_message ctx0 tracer = Some (ctx', tr) \<and>
      state (frame ctx') = 4 \<and> halt_reason (frame ctx') = 1"
    by blast
qed


theorem execute_message_terminates_witness:
  "iterates None False
     (cycle_ctx\<lparr>frame := (frame cycle_ctx)\<lparr>state := 1\<rparr>\<rparr>, [])
     (cycle_ctx\<lparr>frame := (frame cycle_ctx)\<lparr>state := 1, gas_remaining := 99, pc := 1\<rparr>\<rparr>, []) \<and>
   gas_of (cycle_ctx\<lparr>frame := (frame cycle_ctx)\<lparr>state := 1\<rparr>\<rparr>, []) = 100 \<and>
   gas_of (cycle_ctx\<lparr>frame := (frame cycle_ctx)\<lparr>state := 1, gas_remaining := 99, pc := 1\<rparr>\<rparr>, []) + 1
     \<le> gas_of (cycle_ctx\<lparr>frame := (frame cycle_ctx)\<lparr>state := 1\<rparr>\<rparr>, []) \<and>
   (\<exists>ctx' tr. execute_message cycle_ctx None = Some (ctx', tr) \<and>
      state (frame ctx') = 4 \<and> halt_reason (frame ctx') = 1)"
proof -
  let ?s = "(cycle_ctx\<lparr>frame := (frame cycle_ctx)\<lparr>state := 1\<rparr>\<rparr>, [] :: trace_event list)"
  let ?s' = "(cycle_ctx\<lparr>frame := (frame cycle_ctx)\<lparr>state := 1, gas_remaining := 99, pc := 1\<rparr>\<rparr>,
    [] :: trace_event list)"
  have i: "iterates None False ?s ?s'"
    by (simp add: iterates_def cycle_ctx_def run_simps)
  have g: "gas_of ?s = 100"
    by (simp add: gas_of_def cycle_ctx_def)
  have h: "tracer_ok None \<and> code cycle_ctx = [0x5b, 0x60, 0x00, 0x56] \<and>
      code_size (frame cycle_ctx) = 4 \<and> pc (frame cycle_ctx) = 0 \<and>
      stack_size (frame cycle_ctx) = 0 \<and> 1 \<le> length (stack_base cycle_ctx)"
    by (simp add: tracer_ok_def cycle_ctx_def)
  have s1: "state (frame (fst ?s')) = 1"
    by simp
  from execute_message_terminates [of None False 1 ?s ?s' cycle_ctx] i h s1 g
  show ?thesis
    by simp
qed

text \<open>
  Claim C8, amended. With a tracer attached (both callbacks present), \<open>trace_pre_execution\<close>
  is called once for every dispatched opcode, in order and on the region as it is before
  the handler runs; the number of \<open>trace_post_execution\<close> calls equals the number of
  dispatched opcodes whose handler signalled no error and whose cost was covered by
  \<open>gas_remaining\<close>; so the number of \<open>trace_pre_execution\<close> calls is that number or one
  more. The dispatched opcodes are those of \<open>dispatched_opcodes\<close>, the loop's own record.
\<close>

theorem tracer_counts:
  "trace_pre_execution t \<and> trace_post_execution t \<and>
   execute_message ctx0 (Some t) = Some (ctx', tr) \<longrightarrow>
     (\<exists>log. dispatched_opcodes ctx0 (Some t) = Some log \<and>
        pre_contexts tr = log \<and>
        length (filter is_pre tr) = length log \<and>
        length (filter is_post tr) = length (filter charged log) \<and>
        length (filter is_post tr) \<le> length log \<and>
        length log \<le> length (filter is_post tr) + 1)"
proof
  assume a: "trace_pre_execution t \<and> trace_post_execution t \<and>
    execute_message ctx0 (Some t) = Some (ctx', tr)"
  then have run: "execute_loop (Some t) True (ctx0\<lparr>frame := (frame ctx0)\<lparr>state := 1\<rparr>\<rparr>) [] =
      Some (ctx', tr)"
    by (auto simp: execute_message_loop has_tracer_of_def)
  from execute_loop_counts [OF run] a have f: "counts_final tr"
    by (simp add: counts_balanced_def pre_contexts_def)
  from execute_loop_log [OF run] a
  obtain log where l: "dispatched (Some t) True (ctx0\<lparr>frame := (frame ctx0)\<lparr>state := 1\<rparr>\<rparr>) [] =
      Some log" "pre_contexts tr = log"
    by (auto simp: pre_contexts_def)
  from l(1) a have "dispatched_opcodes ctx0 (Some t) = Some log"
    by (simp add: dispatched_opcodes_def)
  moreover from l(2) have "length (filter is_pre tr) = length log"
    by (auto simp: pre_contexts_def)
  ultimately show "\<exists>log. dispatched_opcodes ctx0 (Some t) = Some log \<and>
        pre_contexts tr = log \<and>
        length (filter is_pre tr) = length log \<and>
        length (filter is_post tr) = length (filter charged log) \<and>
        length (filter is_post tr) \<le> length log \<and>
        length log \<le> length (filter is_post tr) + 1"
    using f l(2) by (auto simp: counts_final_def)
qed

theorem tracer_counts_witness:
  "\<exists>ctx' tr log. execute_message simple_add_ctx (Some counting_tracer) = Some (ctx', tr) \<and>
     dispatched_opcodes simple_add_ctx (Some counting_tracer) = Some log \<and>
     length log = 4 \<and> length (filter charged log) = 4 \<and>
     length (filter is_pre tr) = 4 \<and> length (filter is_post tr) = 4"
proof -
  obtain ctx' tr where r: "execute_message simple_add_ctx (Some counting_tracer) = Some (ctx', tr)"
    and n: "length (filter is_pre tr) = 4" "length (filter is_post tr) = 4"
    using simple_add_traced [of simple_add_ctx] by (auto simp: simple_add_ctx_def)
  from tracer_counts [of counting_tracer simple_add_ctx ctx' tr] r n
  obtain log where "dispatched_opcodes simple_add_ctx (Some counting_tracer) = Some log"
    "length log = 4" "length (filter charged log) = 4"
    by (auto simp: counting_tracer_def)
  with r n show ?thesis
    by blast
qed


text \<open>
  The claim as stated fails: on the one-byte program ADD with an empty stack the handler
  signals an error after \<open>trace_pre_execution\<close> has been called, so there is one dispatched
  opcode, none without an error, one call of \<open>trace_pre_execution\<close> and none of
  \<open>trace_post_execution\<close>.
\<close>

theorem tracer_counts_counterexample:
  "\<exists>ctx' tr log. execute_message underflow_ctx (Some counting_tracer) = Some (ctx', tr) \<and>
     dispatched_opcodes underflow_ctx (Some counting_tracer) = Some log \<and>
     length log = 1 \<and> length (filter handler_ok log) = 0 \<and>
     length (filter is_pre tr) = 1 \<and> length (filter is_post tr) = 0"
  apply (simp add: execute_message_def dispatched_opcodes_def trace_defs underflow_ctx_def)
  apply (subst execute_loop.simps, simp add: run_simps trace_defs)
  apply (subst dispatched.simps, simp add: run_simps trace_defs)
  apply (simp add: handler_ok_def dispatch_def run_simps)
  done

text \<open>
  Claim C7, amended. When the loop dispatches an opcode that pushes while the stack holds
  1024 entries, the frame halts with \<open>state = 4\<close> (EXCEPTIONAL_HALT) and
  \<open>halt_reason = 4\<close>, the code the loop writes for every handler error that set no reason
  of its own; nothing else in the shared region changes.
\<close>

theorem stack_overflow_halts:
  assumes "pc (frame ctx) <s code_size (frame ctx)" and "state (frame ctx) = 1"
    and "\<not> gas_remaining (frame ctx) <s 3"
    and "load_byte (code ctx) (sint (pc (frame ctx))) = Some opcode"
    and "pushes opcode"
    and "stack_size (frame ctx) = 1024"
    and "tracer_ok tracer"
  shows "execute_loop tracer (has_tracer_of tracer) ctx tr =
     Some (ctx\<lparr>frame := (frame ctx)\<lparr>state := 4, halt_reason := 4\<rparr>\<rparr>,
           if has_tracer_of tracer then tr @ [TracePre ctx] else tr)"
  using assms(1-4,7) pushes_full [OF assms(5,6)]
  by (subst execute_loop.simps)
     (auto simp: loop_body_def call_trace_pre_def has_tracer_of_def tracer_ok_def
       split: option.splits)

theorem stack_overflow_halts_witness:
  "pushes 0x5f \<and>
   execute_loop None (has_tracer_of None)
     (full_stack_ctx\<lparr>frame := (frame full_stack_ctx)\<lparr>state := 1\<rparr>\<rparr>) [] =
     Some (full_stack_ctx\<lparr>frame := (frame full_stack_ctx)\<lparr>state := 4, halt_reason := 4\<rparr>\<rparr>, [])"
  using stack_overflow_halts [of "full_stack_ctx\<lparr>frame := (frame full_stack_ctx)\<lparr>state := 1\<rparr>\<rparr>"
      "0x5f" None "[]"]
  by (simp add: full_stack_ctx_def pushes_def load_byte_def tracer_ok_def has_tracer_of_def
      word_sless_alt)

text \<open>
  The claim as stated fails: PUSH0 on a stack of 1024 entries ends with
  \<open>halt_reason = 4\<close>, not 5.
\<close>

theorem stack_overflow_counterexample:
  "\<exists>ctx' tr. execute_message full_stack_ctx None = Some (ctx', tr) \<and>
     state (frame ctx') = 4 \<and> halt_reason (frame ctx') = 4 \<and> halt_reason (frame ctx') \<noteq> 5"
  apply (simp add: execute_message_def full_stack_ctx_def)
  apply (subst execute_loop.simps, simp add: run_simps)
  done

text \<open>
  Claim C6, amended. When the loop dispatches MLOAD, MSTORE or MSTORE8 with its operands on
  the stack, and the bytes \<open>offset ..< offset + size\<close> (\<open>offset\<close> the low 32 bits of the
  stack top, \<open>size\<close> 32, or 1 for MSTORE8) end above \<open>memory_size\<close> and above the ceiling
  of 1 MiB, with \<open>offset + size \<le> 2\<^sup>3\<^sup>2 - 32\<close>, the frame halts with \<open>state = 4\<close>
  (EXCEPTIONAL_HALT) and \<open>halt_reason = 4\<close>, the code the loop writes for every handler
  error that set no reason of its own; nothing else in the shared region changes.
\<close>

theorem memory_ceiling_halts:
  assumes "pc (frame ctx) <s code_size (frame ctx)" and "state (frame ctx) = 1"
    and "\<not> gas_remaining (frame ctx) <s 3"
    and "load_byte (code ctx) (sint (pc (frame ctx))) = Some opcode"
    and "opcode = 0x51 \<or> opcode = 0x52 \<or> opcode = 0x53"
    and "stack_top ctx 0 = Some p" and "load_word ctx p = Some w"
    and "opcode = 0x51 \<or> 2 \<le> sint (stack_size (frame ctx))"
    and "offset = (ucast (word_to_u64 w) :: 32 word)"
    and "0 \<le> sint (memory_size (frame ctx))"
    and "sint (memory_size (frame ctx)) < uint offset + uint (access_size opcode)"
    and "1048576 < uint offset + uint (access_size opcode)"
    and "uint offset + uint (access_size opcode) \<le> 4294967264"
    and "tracer_ok tracer"
  shows "execute_loop tracer (has_tracer_of tracer) ctx tr =
     Some (ctx\<lparr>frame := (frame ctx)\<lparr>state := 4, halt_reason := 4\<rparr>\<rparr>,
           if has_tracer_of tracer then tr @ [TracePre ctx] else tr)"
proof -
  have sz: "access_size opcode \<noteq> 0"
    by (simp add: access_size_def)
  note e = ensure_memory_over_ceiling [OF sz assms(10-13)]
  have s1: "stack_top ctx 1 \<noteq> None" if "opcode \<noteq> 0x51"
    using that assms(8) by (auto simp: stack_top_def)
  have h: "(JUMP_TABLE ! unat opcode) ctx = Some (\<lparr>pc_increment = - 1, gas_cost = 0\<rparr>, ctx)"
    using assms(5)
  proof (elim disjE)
    assume "opcode = 0x51"
    with assms(6,7,9) e show ?thesis
      by (simp add: JUMP_TABLE_def op_mload_def access_size_def)
  next
    assume o: "opcode = 0x52"
    with s1 obtain q where "stack_top ctx 1 = Some q"
      by auto
    with o assms(6,7,9) e show ?thesis
      by (simp add: JUMP_TABLE_def op_mstore_def access_size_def)
  next
    assume o: "opcode = 0x53"
    with s1 obtain q where "stack_top ctx 1 = Some q"
      by auto
    with o assms(6,7,9) e show ?thesis
      by (simp add: JUMP_TABLE_def op_mstore8_def access_size_def)
  qed
  show ?thesis
    using assms(1-4,14) h
    by (subst execute_loop.simps)
       (auto simp: loop_body_def call_trace_pre_def has_tracer_of_def tracer_ok_def
         split: option.splits)
qed

theorem memory_ceiling_halts_witness:
  "execute_loop None (has_tracer_of None) mload_pending_ctx [] =
     Some (mload_pending_ctx\<lparr>frame := (frame mload_pending_ctx)\<lparr>state := 4, halt_reason := 4\<rparr>\<rparr>, [])"
  using memory_ceiling_halts [of mload_pending_ctx "0x51" 0 "replicate 29 0 @ [0x10, 0x00, 0x00]"
      "0x100000" None "[]"]
  by (simp add: mload_pending_ctx_def mload_ceiling_ctx_def load_byte_def tracer_ok_def
      has_tracer_of_def word_sless_alt stack_top_def load_word_def in_stack_plane_def
      access_size_def word_to_u64_def upt_24_32 nth_append)

text \<open>
  The claim as stated fails: PUSH3 0x100000; MLOAD on empty memory ends with
  \<open>halt_reason = 4\<close>, not 7.
\<close>

theorem memory_ceiling_counterexample:
  "\<exists>ctx' tr. execute_message mload_ceiling_ctx None = Some (ctx', tr) \<and>
     state (frame ctx') = 4 \<and> halt_reason (frame ctx') = 4 \<and> halt_reason (frame ctx') \<noteq> 7"
  apply (simp add: execute_message_def mload_ceiling_ctx_def)
  apply (subst execute_loop.simps, simp add: run_simps)
  apply (subst execute_loop.simps, simp add: run_simps ensure_memory_def)
  done

text \<open>
  Claim C4 speaks of the program PUSH1 0x2A; PUSH1 0x07; SSTORE; PUSH1 0x07; SLOAD; STOP on
  an empty storage plane with 50000 gas. The handlers \<open>op_sstore\<close> and \<open>op_sload\<close> would
  create the entry and read it back (\<open>storage_round_trip_untraced\<close>), but the opcodes SSTORE
  (0x55) and SLOAD (0x54) do not reach them: the run creates no storage entry (the claim:
  exactly one), ends with three words on the stack, the last one 7 (the claim: a top of
  42), and leaves \<open>gas_remaining = 49985\<close> (the claim: 29894).
\<close>

theorem storage_round_trip_not_stored:
  "\<exists>ctx' tr. execute_message round_trip_ctx None = Some (ctx', tr) \<and>
     state (frame ctx') = 7 \<and>
     storage_slot_count (frame ctx') = 0 \<and>
     storage_base ctx' = storage_base round_trip_ctx \<and>
     stack_size (frame ctx') = 3 \<and>
     stack_base ctx' ! 2 = replicate 31 0 @ [7] \<and>
     gas_remaining (frame ctx') = 49985"
  apply (simp add: execute_message_def round_trip_ctx_def)
  apply (subst execute_loop.simps, simp add: step_simps)
  apply (subst execute_loop.simps, simp add: step_simps)
  apply (subst execute_loop.simps, simp add: step_simps)
  apply (subst execute_loop.simps, simp add: step_simps)
  apply (subst execute_loop.simps, simp add: step_simps)
  apply (subst execute_loop.simps, simp add: step_simps)
  apply (subst execute_loop.simps, simp add: step_simps)
  done

text \<open>
  Claim C3 speaks of every SSTORE executed on a present entry. The handler \<open>op_sstore\<close>
  charges and updates as the claim says (\<open>op_sstore_present_entry\<close>), but the opcode SSTORE
  (0x55) does not reach it: on a frame that is not static, with key 7 on top of the stack,
  the value 42 below it and a cold entry for key 7 whose value and original are zero, the
  run of the one-byte program SSTORE charges 3 gas (the claim: 20000), leaves the entry's
  value zero (the claim: 42) and leaves it cold (the claim: warm).
\<close>

theorem sstore_opcode_runs_stub:
  "\<exists>ctx' tr. execute_message sstore_present_ctx None = Some (ctx', tr) \<and>
     state (frame ctx') = 7 \<and>
     gas_remaining (frame ctx') = 49997 \<and>
     gas_refund (frame ctx') = 0 \<and>
     stack_size (frame ctx') = 2 \<and>
     storage_base ctx' = storage_base sstore_present_ctx \<and>
     val (storage_base ctx' ! 0) = replicate 32 0 \<and> is_warm (storage_base ctx' ! 0) = 0"
  apply (simp add: execute_message_def sstore_present_ctx_def)
  apply (subst execute_loop.simps, simp add: step_simps)
  apply (subst execute_loop.simps, simp add: step_simps)
  done

text \<open>
  Claim C5 speaks of the opcode SSTORE in a static frame. The handler \<open>op_sstore\<close> halts
  such a frame with reason 6 (\<open>op_sstore_static\<close>), but the opcode SSTORE (0x55) does not
  reach it: in the static frame the one-byte program SSTORE runs to \<open>state = 7\<close>
  (COMPLETED_SUCCESS) with \<open>halt_reason\<close> still 0, for 3 gas.
\<close>

theorem sstore_opcode_static_not_halted:
  "\<exists>ctx' tr. execute_message sstore_static_ctx None = Some (ctx', tr) \<and>
     state (frame ctx') = 7 \<and> halt_reason (frame ctx') = 0 \<and>
     gas_remaining (frame ctx') = 49997 \<and> pc (frame ctx') = 1"
  apply (simp add: execute_message_def sstore_static_ctx_def sstore_present_ctx_def)
  apply (subst execute_loop.simps, simp add: step_simps)
  apply (subst execute_loop.simps, simp add: step_simps)
  done

end
